theory Spec2Isabelle
  imports Main "HOL-Library.Sublist"
begin

text \<open>
  A model of \<^verbatim>\<open>backend/scripts/lightning_executor.py\<close>, the bridge that runs the commands of
  a repository in a Lightning AI studio: \<^verbatim>\<open>run_with_timeout\<close>, \<^verbatim>\<open>execute_via_cli\<close> and
  \<^verbatim>\<open>execute_in_cloud\<close>. The SDK, the command line tool, the clock and the environment
  variables are an oracle; every call made to them is recorded in a trace, and an
  exception is an outcome of the call. Progress messages on stderr are left out.
\<close>

section \<open>Python strings\<close>

text \<open>
  A string is the UTF-8 encoding of a Python \<^verbatim>\<open>str\<close>: an ASCII character is one byte, and
  any other character is a lead byte followed by continuation bytes. What Python counts
  in characters (\<^verbatim>\<open>len\<close>, the slice \<^verbatim>\<open>s[:n]\<close>) is counted here in characters too.
\<close>

fun is_continuation :: "char \<Rightarrow> bool" where
  "is_continuation (Char b0 b1 b2 b3 b4 b5 b6 b7) = (b7 \<and> \<not> b6)"

text \<open>\<^verbatim>\<open>len(s)\<close>.\<close>

definition len :: "string \<Rightarrow> nat" where
  "len s = length (filter (\<lambda>c. \<not> is_continuation c) s)"

text \<open>\<^verbatim>\<open>s[:n]\<close>: the first \<open>n\<close> characters, each with its continuation bytes.\<close>

fun take_chars :: "nat \<Rightarrow> string \<Rightarrow> string" where
  "take_chars n [] = []"
| "take_chars n (c # cs) =
     (if is_continuation c then c # take_chars n cs
      else (case n of 0 \<Rightarrow> [] | Suc m \<Rightarrow> c # take_chars m cs))"

text \<open>
  \<^verbatim>\<open>s.lower()\<close>. The ASCII capitals become small letters. The capital I with a dot above
  (U+0130) is the one character that Python lowers to two characters, a small i (U+0069)
  and a combining dot above (U+0307). Every other character beyond ASCII is lowered by
  Python to one character, which changes no length; that character is beyond ASCII too,
  except for the Kelvin sign (U+212A), lowered to \<^verbatim>\<open>k\<close>, a letter of none of the
  keywords that the executor looks for. Such characters are left as they are here.
\<close>

definition ascii_uppercase :: string where
  "ascii_uppercase = ''ABCDEFGHIJKLMNOPQRSTUVWXYZ''"

definition ascii_lowercase :: string where
  "ascii_lowercase = ''abcdefghijklmnopqrstuvwxyz''"

definition is_upper :: "char \<Rightarrow> bool" where
  "is_upper c = (c \<in> set ascii_uppercase)"

definition lower_chr :: "char \<Rightarrow> char" where
  "lower_chr c =
     (case map_of (zip ascii_uppercase ascii_lowercase) c of Some l \<Rightarrow> l | None \<Rightarrow> c)"

definition capital_i_dot :: string where
  "capital_i_dot = [CHR 0xC4, CHR 0xB0]"

definition small_i_dot :: string where
  "small_i_dot = [CHR 0x69, CHR 0xCC, CHR 0x87]"

fun lower :: "string \<Rightarrow> string" where
  "lower [] = []"
| "lower [c] = [lower_chr c]"
| "lower (c # d # cs) =
     (if c # [d] = capital_i_dot then small_i_dot @ lower cs
      else lower_chr c # lower (d # cs))"

text \<open>\<^verbatim>\<open>sub in s\<close> on strings.\<close>

fun str_in :: "string \<Rightarrow> string \<Rightarrow> bool" where
  "str_in sub [] = (sub = [])"
| "str_in sub (c # cs) = (prefix sub (c # cs) \<or> str_in sub cs)"

text \<open>
  \<^verbatim>\<open>s.replace(old, new)\<close>: the occurrences of \<open>old\<close> are replaced from the left, without
  overlap. The executor only calls it with the non-empty patterns \<^verbatim>\<open>'.git'\<close> and \<^verbatim>\<open>' '\<close>.
\<close>

fun replace_str :: "string \<Rightarrow> string \<Rightarrow> string \<Rightarrow> string" where
  "replace_str old new [] = []"
| "replace_str old new (c # cs) =
     (if old \<noteq> [] \<and> prefix old (c # cs)
      then new @ replace_str old new (drop (length old - 1) cs)
      else c # replace_str old new cs)"

definition rstrip_chr :: "char \<Rightarrow> string \<Rightarrow> string" where
  "rstrip_chr c s = rev (dropWhile (\<lambda>x. x = c) (rev s))"

fun split_chr :: "char \<Rightarrow> string \<Rightarrow> string list" where
  "split_chr sep [] = [[]]"
| "split_chr sep (c # cs) =
     (if c = sep then [] # split_chr sep cs
      else (case split_chr sep cs of w # ws \<Rightarrow> (c # w) # ws | [] \<Rightarrow> [[c]]))"

text \<open>\<^verbatim>\<open>sep.join(xs)\<close>.\<close>

fun join :: "string \<Rightarrow> string list \<Rightarrow> string" where
  "join sep [] = []"
| "join sep [x] = x"
| "join sep (x # y # ys) = x @ sep @ join sep (y # ys)"

text \<open>\<^verbatim>\<open>str(n)\<close> for a non-negative integer.\<close>

fun str_nat :: "nat \<Rightarrow> string" where
  "str_nat n =
     (if n < 10 then [''0123456789'' ! n]
      else str_nat (n div 10) @ [''0123456789'' ! (n mod 10)])"

declare str_nat.simps [simp del]

text \<open>Truth value of an optional string: \<^verbatim>\<open>None\<close> and \<^verbatim>\<open>''\<close> are false.\<close>

definition truthy :: "string option \<Rightarrow> bool" where
  "truthy v = (case v of None \<Rightarrow> False | Some s \<Rightarrow> s \<noteq> [])"

definition py_or :: "string option \<Rightarrow> string option \<Rightarrow> string option" where
  "py_or a b = (if truthy a then a else b)"

section \<open>The execution report\<close>

text \<open>The dictionaries appended to \<^verbatim>\<open>results['outputs']\<close>; \<open>o_success\<close> is their key
  \<^verbatim>\<open>'success'\<close>.\<close>

record command_result =
  command :: string
  stdout :: string
  stderr :: string
  exitCode :: int
  o_success :: bool

record report =
  success :: bool
  outputs :: "command_result list"
  errors :: "string list"

section \<open>The outside world\<close>

text \<open>
  Every call that leaves the process is an event of the trace. A call either returns a
  value or raises an \<^verbatim>\<open>Exception\<close> (given by its \<^verbatim>\<open>str\<close>), after a number of seconds.
\<close>

datatype event =
    Studio_connect string string string
  | Studio_create string string string
  | Studio_create_personal string
  | Studio_start
  | Studio_run string
  | Studio_stop
  | Signal_alarm nat
  | Sleep nat
  | Subprocess_run "string list" nat
  | File_write string string
  | Os_remove string

datatype 'a action = Completes nat 'a | Fails nat string

fun duration :: "'a action \<Rightarrow> nat" where
  "duration (Completes d v) = d"
| "duration (Fails d e) = d"

text \<open>
  What a call gives its caller: a value, the module's own \<^verbatim>\<open>TimeoutError\<close> (raised by
  \<^verbatim>\<open>timeout_handler\<close> when the alarm fires), or another \<^verbatim>\<open>Exception\<close>.
\<close>

datatype 'a outcome = Ok 'a | TimeoutError | Exception string

fun result_of :: "'a action \<Rightarrow> 'a outcome" where
  "result_of (Completes d v) = Ok v"
| "result_of (Fails d e) = Exception e"

text \<open>\<^verbatim>\<open>str(e)\<close> of a caught exception; \<^verbatim>\<open>TimeoutError\<close> is a subclass of \<^verbatim>\<open>Exception\<close>.\<close>

fun str_exc :: "'a outcome \<Rightarrow> string" where
  "str_exc (Exception e) = e"
| "str_exc TimeoutError = ''Operation timed out''"
| "str_exc (Ok v) = []"

text \<open>\<^verbatim>\<open>subprocess.CompletedProcess\<close>: return code, stdout, stderr.\<close>

datatype completed_process = CompletedProcess int string string

datatype proc_outcome = Completed completed_process | TimeoutExpired | Proc_error string

text \<open>
  The process state: the seconds left until \<^verbatim>\<open>SIGALRM\<close> (if an alarm is pending) and the
  calls made so far.
\<close>

record world =
  alarm :: "nat option"
  trace :: "event list"

definition init_world :: world where
  "init_world = \<lparr>alarm = None, trace = []\<rparr>"

text \<open>
  What the run cannot control: the environment variables, the clock, the Lightning SDK,
  the local \<^verbatim>\<open>lightning\<close> command line tool and the file system. Each answer may depend
  on the calls made before.
\<close>

record env =
  environ :: "string \<Rightarrow> string option"
  time_time :: "event list \<Rightarrow> nat"
  sdk :: "event list \<Rightarrow> event \<Rightarrow> string action"
  subprocess :: "event list \<Rightarrow> string list \<Rightarrow> completed_process action"
  file_io :: "event list \<Rightarrow> event \<Rightarrow> string option"

definition log :: "event \<Rightarrow> world \<Rightarrow> world" where
  "log ev w = w\<lparr>trace := trace w @ [ev]\<rparr>"

text \<open>
  An operation that takes \<open>d\<close> seconds runs to its end when no alarm is pending or more
  than \<open>d\<close> seconds are left; otherwise the alarm fires first and the handler raises
  \<^verbatim>\<open>TimeoutError\<close> inside it.
\<close>

definition perform :: "'a action \<Rightarrow> world \<Rightarrow> 'a outcome \<times> world" where
  "perform act w =
     (case alarm w of
        None \<Rightarrow> (result_of act, w)
      | Some r \<Rightarrow>
          if duration act < r then (result_of act, w\<lparr>alarm := Some (r - duration act)\<rparr>)
          else (TimeoutError, w\<lparr>alarm := None\<rparr>))"

definition call :: "env \<Rightarrow> event \<Rightarrow> world \<Rightarrow> string outcome \<times> world" where
  "call env ev w = perform (sdk env (trace w) ev) (log ev w)"

section \<open>run_with_timeout\<close>

text \<open>
  \<^verbatim>\<open>signal.alarm(n)\<close> schedules the alarm in \<open>n\<close> seconds; \<open>n = 0\<close> cancels it.
  \<^verbatim>\<open>signal.signal(signal.SIGALRM, timeout_handler)\<close> is what makes a fired alarm the
  exception \<^verbatim>\<open>TimeoutError\<close>.
\<close>

definition signal_alarm :: "nat \<Rightarrow> world \<Rightarrow> world" where
  "signal_alarm n w = log (Signal_alarm n) (w\<lparr>alarm := (if n = 0 then None else Some n)\<rparr>)"

text \<open>
  How a wrapped function can end, as \<^verbatim>\<open>run_with_timeout\<close> sees it: by something its
  \<^verbatim>\<open>try\<close> statement handles (a value, \<^verbatim>\<open>TimeoutError\<close>, another \<^verbatim>\<open>Exception\<close>), or by
  an exception that does not derive from \<^verbatim>\<open>Exception\<close> (\<^verbatim>\<open>KeyboardInterrupt\<close>,
  \<^verbatim>\<open>SystemExit\<close>), which neither \<^verbatim>\<open>except\<close> clause catches.
\<close>

datatype 'a ending = Caught "'a outcome" | Uncaught string

text \<open>
  The function as it is written: the alarm is cancelled in the \<^verbatim>\<open>try\<close> body and in the
  two \<^verbatim>\<open>except\<close> clauses, and there is no \<^verbatim>\<open>finally\<close>.
\<close>

definition run_with_timeout_any ::
  "(world \<Rightarrow> 'a ending \<times> world) \<Rightarrow> nat \<Rightarrow> world \<Rightarrow> 'a ending \<times> world" where
  "run_with_timeout_any func timeout_seconds w =
     (case func (signal_alarm timeout_seconds w) of
        (Caught (Ok result), w') \<Rightarrow> (Caught (Ok result), signal_alarm 0 w')
      | (Caught TimeoutError, w') \<Rightarrow> (Caught TimeoutError, signal_alarm 0 w')
      | (Caught (Exception e), w') \<Rightarrow> (Caught (Exception e), signal_alarm 0 w')
      | (Uncaught e, w') \<Rightarrow> (Uncaught e, w'))"

text \<open>
  \<^verbatim>\<open>execute_in_cloud\<close> wraps calls of the SDK only, which return or raise an
  \<^verbatim>\<open>Exception\<close>. On such functions the guard is \<open>run_with_timeout\<close>
  (\<open>run_with_timeout_caught\<close> below).
\<close>

definition caught :: "(world \<Rightarrow> 'a outcome \<times> world) \<Rightarrow> world \<Rightarrow> 'a ending \<times> world" where
  "caught func w = (case func w of (r, w') \<Rightarrow> (Caught r, w'))"

definition run_with_timeout ::
  "(world \<Rightarrow> 'a outcome \<times> world) \<Rightarrow> nat \<Rightarrow> world \<Rightarrow> 'a outcome \<times> world" where
  "run_with_timeout func timeout_seconds w =
     (case func (signal_alarm timeout_seconds w) of
        (Ok result, w') \<Rightarrow> (Ok result, signal_alarm 0 w')
      | (TimeoutError, w') \<Rightarrow> (TimeoutError, signal_alarm 0 w')
      | (Exception e, w') \<Rightarrow> (Exception e, signal_alarm 0 w'))"

section \<open>execute_via_cli\<close>

text \<open>\<^verbatim>\<open>subprocess.run(argv, capture_output=True, text=True, timeout=t)\<close>.\<close>

definition subprocess_run :: "env \<Rightarrow> string list \<Rightarrow> nat \<Rightarrow> world \<Rightarrow> proc_outcome \<times> world" where
  "subprocess_run env argv t w =
     (let act = subprocess env (trace w) argv; w' = log (Subprocess_run argv t) w
      in if duration act < t
         then (case act of Completes d p \<Rightarrow> (Completed p, w') | Fails d e \<Rightarrow> (Proc_error e, w'))
         else (TimeoutExpired, w'))"

definition script_content :: "string \<Rightarrow> string list \<Rightarrow> string" where
  "script_content repo_url commands =
     ''#!/bin/bash'' @ [CHR 0x0A] @ ''set -e'' @ [CHR 0x0A]
     @ ''git clone '' @ repo_url @ '' /teamspace/studios/this_studio/repo'' @ [CHR 0x0A]
     @ ''cd /teamspace/studios/this_studio/repo'' @ [CHR 0x0A]
     @ join [CHR 0x0A] commands @ [CHR 0x0A]"

definition cli_empty :: report where
  "cli_empty = \<lparr>success = False, outputs = [], errors = []\<rparr>"

definition execute_via_cli ::
  "env \<Rightarrow> string \<Rightarrow> string \<Rightarrow> string list \<Rightarrow> world \<Rightarrow> report \<times> world" where
  "execute_via_cli env repo_url project_name commands w =
     (case subprocess_run env [''lightning'', ''--version''] 10 w of
        (TimeoutExpired, w1) \<Rightarrow> (cli_empty\<lparr>errors := [''CLI execution timed out'']\<rparr>, w1)
      | (Proc_error e, w1) \<Rightarrow> (cli_empty\<lparr>errors := [''CLI execution error: '' @ e]\<rparr>, w1)
      | (Completed (CompletedProcess rc0 out0 err0), w1) \<Rightarrow>
          if rc0 \<noteq> 0 then (cli_empty\<lparr>errors := [''Lightning CLI not available'']\<rparr>, w1)
          else
            let script_path = ''/tmp/lightning_script_'' @ str_nat (time_time env (trace w1))
                                @ ''.sh'';
                wr = File_write script_path (script_content repo_url commands);
                w2 = log wr w1
            in (case file_io env (trace w1) wr of
                  Some e \<Rightarrow> (cli_empty\<lparr>errors := [''CLI execution error: '' @ e]\<rparr>, w2)
                | None \<Rightarrow>
                   (case subprocess_run env
                           [''lightning'', ''run'', ''studio'', ''--script'', script_path] 600 w2 of
                      (TimeoutExpired, w3) \<Rightarrow>
                        (cli_empty\<lparr>errors := [''CLI execution timed out'']\<rparr>, w3)
                    | (Proc_error e, w3) \<Rightarrow>
                        (cli_empty\<lparr>errors := [''CLI execution error: '' @ e]\<rparr>, w3)
                    | (Completed (CompletedProcess rc out err), w3) \<Rightarrow>
                        let w4 = log (Os_remove script_path) w3
                        in (case file_io env (trace w3) (Os_remove script_path) of
                              Some e \<Rightarrow>
                                (cli_empty\<lparr>errors := [''CLI execution error: '' @ e]\<rparr>, w4)
                            | None \<Rightarrow>
                                if rc = 0
                                then (\<lparr>success = True,
                                       outputs = [\<lparr>command = ''all_commands'', stdout = out,
                                                   stderr = err, exitCode = 0, o_success = True\<rparr>],
                                       errors = []\<rparr>, w4)
                                else (\<lparr>success = False,
                                       outputs = [\<lparr>command = ''all_commands'', stdout = out,
                                                   stderr = err, exitCode = rc, o_success = False\<rparr>],
                                       errors = [''CLI execution failed: '' @ err]\<rparr>, w4)))))"

section \<open>execute_in_cloud\<close>

subsection \<open>The studio name\<close>

definition studio_name_of :: "string \<Rightarrow> string \<Rightarrow> string" where
  "studio_name_of project_name repo_url =
     (let repo_name =
            replace_str ''.git'' [] (last (split_chr CHR ''/'' (rstrip_chr CHR ''/'' repo_url)));
          studio_name = take_chars 50 (project_name @ ''-'' @ repo_name)
      in lower (replace_str '' '' ''-'' studio_name))"

subsection \<open>Connecting to the studio, or creating it\<close>

text \<open>
  The three approaches; the result is \<^verbatim>\<open>studio_created\<close> and \<^verbatim>\<open>last_error\<close>. Each
  \<^verbatim>\<open>except Exception\<close> also catches the module's \<^verbatim>\<open>TimeoutError\<close>.
\<close>

definition acquire_studio ::
  "env \<Rightarrow> string \<Rightarrow> string \<Rightarrow> string \<Rightarrow> world \<Rightarrow> (bool \<times> string option) \<times> world" where
  "acquire_studio env studio_name teamspace user_param w =
     (case call env (Studio_connect studio_name teamspace user_param) w of
        (Ok s, w1) \<Rightarrow> ((True, None), w1)
      | (e1, w1) \<Rightarrow>
          (case call env (Studio_create studio_name teamspace user_param) w1 of
             (Ok s, w2) \<Rightarrow> ((True, Some (str_exc e1)), w2)
           | (e2, w2) \<Rightarrow>
               (case call env (Studio_create_personal studio_name) w2 of
                  (Ok s, w3) \<Rightarrow> ((True, Some (str_exc e2)), w3)
                | (e3, w3) \<Rightarrow> ((False, Some (str_exc e3)), w3))))"

definition creation_failed :: "string option \<Rightarrow> report" where
  "creation_failed last_error =
     \<lparr>success = False, outputs = [],
      errors =
        [''Lightning Studio creation failed: ''
           @ (case last_error of None \<Rightarrow> ''None'' | Some e \<Rightarrow> e),
         [],
         ''TROUBLESHOOTING:'',
         ''1. Verify your Lightning AI account: https://lightning.ai/'',
         ''2. Get your credentials from Settings > API Keys'',
         ''3. For teamspace, get name from your teamspace URL'',
         ''4. Try creating a Studio manually first to verify access'',
         [],
         ''Required env vars:'',
         ''  LIGHTNING_API_KEY=<your-api-key>'',
         ''  LIGHTNING_USERNAME=<your-username>'',
         ''  LIGHTNING_TEAMSPACE=<teamspace-name> (optional)'']\<rparr>"

subsection \<open>Starting and probing the studio\<close>

text \<open>Whatever \<^verbatim>\<open>studio.start()\<close> does, the run goes on; it sleeps only after a clean start.\<close>

definition start_studio :: "env \<Rightarrow> world \<Rightarrow> world" where
  "start_studio env w =
     (case run_with_timeout (call env Studio_start) 120 w of
        (Ok r, w1) \<Rightarrow> log (Sleep 3) w1
      | (TimeoutError, w1) \<Rightarrow> w1
      | (Exception e, w1) \<Rightarrow> w1)"

definition probe_cmd :: string where
  "probe_cmd = ''echo 'Lightning Studio Ready' && pwd''"

definition test_studio :: "env \<Rightarrow> world \<Rightarrow> string outcome \<times> world" where
  "test_studio env = call env (Studio_run probe_cmd)"

subsection \<open>Cloning\<close>

definition clone_repo :: "env \<Rightarrow> string \<Rightarrow> string \<Rightarrow> world \<Rightarrow> string outcome \<times> world" where
  "clone_repo env repo_url repo_dir w =
     (case call env (Studio_run (''rm -rf '' @ repo_dir)) w of
        (Ok r, w1) \<Rightarrow> call env (Studio_run (''git clone '' @ repo_url @ '' '' @ repo_dir)) w1
      | (TimeoutError, w1) \<Rightarrow> (TimeoutError, w1)
      | (Exception e, w1) \<Rightarrow> (Exception e, w1))"

definition results_init :: report where
  "results_init = \<lparr>success = True, outputs = [], errors = []\<rparr>"

subsection \<open>The commands\<close>

text \<open>The test \<^verbatim>\<open>'install' in cmd.lower() or 'download' in cmd.lower()\<close>, made twice.\<close>

definition install_or_download :: "string \<Rightarrow> bool" where
  "install_or_download cmd = (str_in ''install'' (lower cmd) \<or> str_in ''download'' (lower cmd))"

definition timeout_seconds_of :: "string \<Rightarrow> nat" where
  "timeout_seconds_of cmd =
     (if install_or_download cmd then 600
      else if str_in ''test'' (lower cmd) then 300
      else 180)"

definition full_cmd :: "string \<Rightarrow> string \<Rightarrow> string" where
  "full_cmd repo_dir cmd =
     ''cd '' @ repo_dir @ '' && timeout '' @ str_nat (timeout_seconds_of cmd) @ '' '' @ cmd"

definition run_cmd :: "env \<Rightarrow> string \<Rightarrow> string \<Rightarrow> world \<Rightarrow> string outcome \<times> world" where
  "run_cmd env repo_dir cmd = call env (Studio_run (full_cmd repo_dir cmd))"

definition quoted :: "string \<Rightarrow> string" where
  "quoted s = [CHR 0x27] @ s @ [CHR 0x27]"

definition cmd_ok :: "string \<Rightarrow> string \<Rightarrow> command_result" where
  "cmd_ok cmd output =
     \<lparr>command = cmd, stdout = take_chars 5000 output, stderr = [], exitCode = 0,
      o_success = True\<rparr>"

text \<open>The \<^verbatim>\<open>error_msg\<close> of the timeout handler.\<close>

definition timed_out_msg :: "string \<Rightarrow> string" where
  "timed_out_msg cmd = ''Command timed out after '' @ str_nat (timeout_seconds_of cmd) @ ''s''"

definition cmd_timed_out :: "string \<Rightarrow> command_result" where
  "cmd_timed_out cmd =
     \<lparr>command = cmd, stdout = [], stderr = timed_out_msg cmd, exitCode = 124,
      o_success = False\<rparr>"

definition cmd_failed :: "string \<Rightarrow> string \<Rightarrow> command_result" where
  "cmd_failed cmd error_msg =
     \<lparr>command = cmd, stdout = [], stderr = take_chars 2000 error_msg, exitCode = 1,
      o_success = False\<rparr>"

text \<open>The loop over \<^verbatim>\<open>commands\<close>; \<^verbatim>\<open>break\<close> returns without the remaining commands.\<close>

fun run_commands ::
  "env \<Rightarrow> string \<Rightarrow> string list \<Rightarrow> report \<times> world \<Rightarrow> report \<times> world" where
  "run_commands env repo_dir [] (results, w) = (results, w)"
| "run_commands env repo_dir (cmd # cmds) (results, w) =
     (case run_with_timeout (run_cmd env repo_dir cmd) (timeout_seconds_of cmd + 30) w of
        (Ok output, w') \<Rightarrow>
          run_commands env repo_dir cmds
            (results\<lparr>outputs := outputs results @ [cmd_ok cmd output]\<rparr>, w')
      | (TimeoutError, w') \<Rightarrow>
          run_commands env repo_dir cmds
            (results\<lparr>outputs := outputs results @ [cmd_timed_out cmd],
                     errors := errors results
                       @ [''Command '' @ quoted cmd @ '' '' @ timed_out_msg cmd]\<rparr>, w')
      | (Exception error_msg, w') \<Rightarrow>
          (let results' =
                 results\<lparr>outputs := outputs results @ [cmd_failed cmd error_msg],
                          errors := errors results
                            @ [''Command '' @ quoted cmd @ '' failed: ''
                               @ take_chars 500 error_msg]\<rparr>
           in if install_or_download cmd then (results'\<lparr>success := False\<rparr>, w')
              else run_commands env repo_dir cmds (results', w')))"

subsection \<open>Cleaning up\<close>

text \<open>Both steps swallow whatever is raised.\<close>

definition cleanup_studio :: "env \<Rightarrow> string \<Rightarrow> world \<Rightarrow> world" where
  "cleanup_studio env repo_dir w =
     snd (call env Studio_stop (snd (call env (Studio_run (''rm -rf '' @ repo_dir)) w)))"

subsection \<open>Partial success\<close>

definition install_succeeded :: "command_result list \<Rightarrow> bool" where
  "install_succeeded rs =
     list_ex (\<lambda>r. o_success r \<and> str_in ''install'' (lower (command r))) rs"

definition promote :: "report \<Rightarrow> report" where
  "promote results =
     (if length (outputs results) > 0 \<and> \<not> success results
      then (if install_succeeded (outputs results)
            then results\<lparr>success := True,
                   errors := errors results
                     @ [''Note: Some commands failed but installation succeeded'']\<rparr>
            else results)
      else results)"

subsection \<open>The whole run\<close>

definition repo_dir_of :: "env \<Rightarrow> event list \<Rightarrow> string" where
  "repo_dir_of env h = ''/teamspace/studios/this_studio/repo-'' @ str_nat (time_time env h)"

definition clone_result :: "string \<Rightarrow> string \<Rightarrow> command_result" where
  "clone_result repo_url clone_output =
     \<lparr>command = ''git clone '' @ repo_url, stdout = take_chars 1000 clone_output,
      stderr = [],
      exitCode = 0, o_success = True\<rparr>"

text \<open>From \<^verbatim>\<open>studio.start()\<close> to the \<^verbatim>\<open>return results\<close> of the \<^verbatim>\<open>try\<close> block.\<close>

definition run_in_studio ::
  "env \<Rightarrow> string \<Rightarrow> string list \<Rightarrow> world \<Rightarrow> report \<times> world" where
  "run_in_studio env repo_url commands w1 =
     (case run_with_timeout (test_studio env) 30 (start_studio env w1) of
        (TimeoutError, w3) \<Rightarrow>
          (\<lparr>success = False, outputs = [],
            errors = [''Studio is not responsive (timeout)'',
                      ''Try again or check Lightning AI dashboard'']\<rparr>, w3)
      | (Exception test_error, w3) \<Rightarrow>
          (\<lparr>success = False, outputs = [],
            errors = [''Studio not responsive: '' @ test_error]\<rparr>, w3)
      | (Ok test_output, w3) \<Rightarrow>
          (let repo_dir = repo_dir_of env (trace w3)
           in case run_with_timeout (clone_repo env repo_url repo_dir) 120 w3 of
                (TimeoutError, w4) \<Rightarrow>
                  (results_init\<lparr>success := False,
                     errors := errors results_init @ [''Git clone timed out (>120s)'']\<rparr>, w4)
              | (Exception clone_error, w4) \<Rightarrow>
                  (results_init\<lparr>success := False,
                     errors := errors results_init @ [''Git clone failed: '' @ clone_error]\<rparr>,
                   w4)
              | (Ok clone_output, w4) \<Rightarrow>
                  (case run_commands env repo_dir commands
                          (results_init\<lparr>outputs := outputs results_init
                             @ [clone_result repo_url clone_output]\<rparr>, w4) of
                     (results, w5) \<Rightarrow>
                       (promote results, cleanup_studio env repo_dir w5))))"

definition primary_path ::
  "env \<Rightarrow> string \<Rightarrow> string \<Rightarrow> string list \<Rightarrow> string \<Rightarrow> string \<Rightarrow> world \<Rightarrow> report \<times> world" where
  "primary_path env repo_url project_name commands teamspace user_param w =
     (case acquire_studio env (studio_name_of project_name repo_url) teamspace user_param w of
        ((studio_created, last_error), w1) \<Rightarrow>
          if \<not> studio_created then (creation_failed last_error, w1)
          else run_in_studio env repo_url commands w1)"

definition teamspace_of :: "env \<Rightarrow> string" where
  "teamspace_of env =
     (case environ env ''LIGHTNING_TEAMSPACE'' of None \<Rightarrow> ''Vision-model'' | Some t \<Rightarrow> t)"

definition no_user :: report where
  "no_user =
     \<lparr>success = False, outputs = [],
      errors =
        [''LIGHTNING_USERNAME or LIGHTNING_USER_ID must be set in environment'',
         ''The SDK needs a user parameter when creating Studios'',
         ''Get your username from: https://lightning.ai/ (check your profile URL)'']\<rparr>"

definition execute_in_cloud ::
  "env \<Rightarrow> string \<Rightarrow> string \<Rightarrow> string list \<Rightarrow> report \<times> world" where
  "execute_in_cloud env repo_url project_name commands =
     (let api_key = environ env ''LIGHTNING_API_KEY'';
          user_id = environ env ''LIGHTNING_USER_ID'';
          username = environ env ''LIGHTNING_USERNAME'';
          teamspace = teamspace_of env
      in if \<not> truthy api_key
         then (\<lparr>success = False, outputs = [],
                errors = [''LIGHTNING_API_KEY not set in environment'']\<rparr>, init_world)
         else
           (case py_or username user_id of
              None \<Rightarrow> (no_user, init_world)
            | Some user_param \<Rightarrow>
                if user_param = [] then (no_user, init_world)
                else primary_path env repo_url project_name commands teamspace user_param
                       init_world))"

subsection \<open>When the SDK path raises\<close>

text \<open>
  The last \<^verbatim>\<open>except Exception as e\<close> of \<^verbatim>\<open>execute_in_cloud\<close>: it is entered with the
  report built so far, with whether \<^verbatim>\<open>studio\<close> has been set, and with \<^verbatim>\<open>str(e)\<close>. With
  string arguments every call of the \<^verbatim>\<open>try\<close> block that can raise sits in an inner
  \<^verbatim>\<open>try\<close> that catches \<^verbatim>\<open>Exception\<close>, which is why \<open>primary_path\<close> always returns a
  report.
\<close>

definition sdk_failed ::
  "env \<Rightarrow> string \<Rightarrow> string \<Rightarrow> string list \<Rightarrow> report \<Rightarrow> bool \<Rightarrow> string \<Rightarrow> world
     \<Rightarrow> report \<times> world" where
  "sdk_failed env repo_url project_name commands results studio error_msg w =
     (let results1 = results\<lparr>success := False,
                       errors := errors results
                         @ [''Lightning SDK execution failed: '' @ error_msg]\<rparr>;
          w1 = (if studio then snd (call env Studio_stop w) else w);
          use_cli_fallback =
            (lower (case environ env ''LIGHTNING_USE_CLI_FALLBACK'' of
                      None \<Rightarrow> ''true'' | Some v \<Rightarrow> v) = ''true'')
      in if use_cli_fallback
         then (case execute_via_cli env repo_url project_name commands w1 of
                 (cli_results, w2) \<Rightarrow>
                   if success cli_results then (cli_results, w2)
                   else (results1\<lparr>errors := errors results1 @ errors cli_results\<rparr>, w2))
         else (results1, w1))"

section \<open>Vocabulary of the properties\<close>


fun is_ok :: "'a outcome \<Rightarrow> bool" where
  "is_ok (Ok v) = True"
| "is_ok TimeoutError = False"
| "is_ok (Exception e) = False"

text \<open>The calls of the command line path, and the two calls that create a studio.\<close>

fun cli_event :: "event \<Rightarrow> bool" where
  "cli_event (Subprocess_run argv t) = True"
| "cli_event (File_write path content) = True"
| "cli_event (Os_remove path) = True"
| "cli_event ev = False"


text \<open>The calls made once a studio is there: start, run, stop, the alarm, the pause.\<close>

fun runtime_event :: "event \<Rightarrow> bool" where
  "runtime_event Studio_start = True"
| "runtime_event (Studio_run c) = True"
| "runtime_event Studio_stop = True"
| "runtime_event (Signal_alarm n) = True"
| "runtime_event (Sleep n) = True"
| "runtime_event ev = False"

text \<open>The second world has the trace of the first, followed by such calls only.\<close>

definition grows :: "world \<Rightarrow> world \<Rightarrow> bool" where
  "grows w w' = (\<exists>evs. trace w' = trace w @ evs \<and> list_all runtime_event evs)"

text \<open>The last two calls are the removal of the repository directory and the stop.\<close>

definition ends_with_cleanup :: "event list \<Rightarrow> bool" where
  "ends_with_cleanup tr =
     (case rev tr of
        Studio_stop # Studio_run c # evs \<Rightarrow> prefix ''rm -rf '' c
      | _ \<Rightarrow> False)"

text \<open>What one command of the list adds to the trace.\<close>

definition command_events :: "string \<Rightarrow> string \<Rightarrow> event list" where
  "command_events repo_dir cmd =
     [Signal_alarm (timeout_seconds_of cmd + 30),
      Studio_run (''cd '' @ repo_dir @ '' && timeout '' @ str_nat (timeout_seconds_of cmd)
                  @ '' '' @ cmd),
      Signal_alarm 0]"

text \<open>
  The specification's classification: a command mentions a keyword when some part of
  its text is the keyword up to the case of the letters.
\<close>

definition spec_mentions :: "string \<Rightarrow> string \<Rightarrow> bool" where
  "spec_mentions keyword cmd = (\<exists>u v w. cmd = u @ v @ w \<and> lower v = keyword)"

definition bounded_result :: "command_result \<Rightarrow> bool" where
  "bounded_result r = (len (stdout r) \<le> 5000 \<and> len (stderr r) \<le> 2000)"

text \<open>
  A keyword of ASCII letters that does not end in \<^verbatim>\<open>i\<close>: lowering a capital I with a
  dot above can then neither make nor break an occurrence of it.
\<close>

definition plain_keyword :: "string \<Rightarrow> bool" where
  "plain_keyword kw =
     (kw \<noteq> [] \<and> last kw \<noteq> CHR 0x69
      \<and> CHR 0xC4 \<notin> set kw \<and> CHR 0xB0 \<notin> set kw \<and> CHR 0xCC \<notin> set kw
      \<and> CHR 0x87 \<notin> set kw)"

text \<open>
  The loop in terms of what the calls give. \<open>outcomes_of\<close> is what the guarded call of
  each command gives when the commands are run one after the other; \<open>stops\<close> says when
  the loop breaks; \<open>attempted\<close> counts the commands up to and including the first that
  stops the loop; \<open>results_for\<close> and \<open>errors_for\<close> are what is recorded.
\<close>

fun outcomes_of :: "env \<Rightarrow> string \<Rightarrow> string list \<Rightarrow> world \<Rightarrow> string outcome list" where
  "outcomes_of env repo_dir [] w = []"
| "outcomes_of env repo_dir (cmd # cmds) w =
     fst (run_with_timeout (run_cmd env repo_dir cmd) (timeout_seconds_of cmd + 30) w)
     # outcomes_of env repo_dir cmds
         (snd (run_with_timeout (run_cmd env repo_dir cmd) (timeout_seconds_of cmd + 30) w))"

fun stops :: "string \<Rightarrow> string outcome \<Rightarrow> bool" where
  "stops cmd (Exception e) = install_or_download cmd"
| "stops cmd TimeoutError = False"
| "stops cmd (Ok output) = False"

fun attempted :: "string list \<Rightarrow> string outcome list \<Rightarrow> nat" where
  "attempted (cmd # cmds) (res # outs) = (if stops cmd res then 1 else Suc (attempted cmds outs))"
| "attempted cmds outs = 0"

fun any_stops :: "string list \<Rightarrow> string outcome list \<Rightarrow> bool" where
  "any_stops (cmd # cmds) (res # outs) = (stops cmd res \<or> any_stops cmds outs)"
| "any_stops cmds outs = False"

fun result_for :: "string \<Rightarrow> string outcome \<Rightarrow> command_result" where
  "result_for cmd (Ok output) = cmd_ok cmd output"
| "result_for cmd TimeoutError = cmd_timed_out cmd"
| "result_for cmd (Exception e) = cmd_failed cmd e"

fun results_for :: "string list \<Rightarrow> string outcome list \<Rightarrow> command_result list" where
  "results_for (cmd # cmds) (res # outs) = result_for cmd res # results_for cmds outs"
| "results_for cmds outs = []"

fun errors_for :: "string list \<Rightarrow> string outcome list \<Rightarrow> string list" where
  "errors_for (cmd # cmds) (Ok output # outs) = errors_for cmds outs"
| "errors_for (cmd # cmds) (TimeoutError # outs) =
     (''Command '' @ quoted cmd @ '' '' @ timed_out_msg cmd) # errors_for cmds outs"
| "errors_for (cmd # cmds) (Exception e # outs) =
     (''Command '' @ quoted cmd @ '' failed: '' @ take_chars 500 e) # errors_for cmds outs"
| "errors_for cmds outs = []"

section \<open>Scenarios\<close>

text \<open>
  Concrete outside worlds: the API key and the user name are set, the clock is fixed,
  the SDK answers by the call alone, the command line tool always gives the same
  completed process and the file system never fails.
\<close>

definition scenario :: "(event \<Rightarrow> string action) \<Rightarrow> completed_process \<Rightarrow> env" where
  "scenario respond cp =
     \<lparr>environ = [''LIGHTNING_API_KEY'' \<mapsto> ''key'', ''LIGHTNING_USERNAME'' \<mapsto> ''alice''],
      time_time = (\<lambda>h. 1700000000),
      sdk = (\<lambda>h. respond),
      subprocess = (\<lambda>h argv. Completes 1 cp),
      file_io = (\<lambda>h ev. None)\<rparr>"

text \<open>Everything works, except that \<^verbatim>\<open>pytest\<close> raises.\<close>

fun test_fails :: "event \<Rightarrow> string action" where
  "test_fails (Studio_run c) =
     (if str_in ''pytest'' c then Fails 2 ''1 failed'' else Completes 1 ''ok'')"
| "test_fails ev = Completes 1 []"

text \<open>\<^verbatim>\<open>pip install\<close> takes longer than its guard allows.\<close>

fun install_hangs :: "event \<Rightarrow> string action" where
  "install_hangs (Studio_run c) =
     (if str_in ''pip install'' c then Completes 700 ''ok'' else Completes 1 ''ok'')"
| "install_hangs ev = Completes 1 []"

text \<open>\<^verbatim>\<open>pip install\<close> raises.\<close>

fun install_fails :: "event \<Rightarrow> string action" where
  "install_fails (Studio_run c) =
     (if str_in ''pip install'' c then Fails 2 ''no such package'' else Completes 1 ''ok'')"
| "install_fails ev = Completes 1 []"

text \<open>Both \<^verbatim>\<open>pytest\<close> and \<^verbatim>\<open>pip install\<close> raise.\<close>

fun test_and_install_fail :: "event \<Rightarrow> string action" where
  "test_and_install_fail (Studio_run c) =
     (if str_in ''pytest'' c then Fails 2 ''1 failed''
      else if str_in ''pip install'' c then Fails 2 ''no such package''
      else Completes 1 ''ok'')"
| "test_and_install_fail ev = Completes 1 []"




text \<open>The probe raises.\<close>

fun probe_fails :: "event \<Rightarrow> string action" where
  "probe_fails (Studio_run c) = Fails 1 ''connection reset''"
| "probe_fails ev = Completes 1 []"

text \<open>The probe hangs.\<close>

fun probe_hangs :: "event \<Rightarrow> string action" where
  "probe_hangs (Studio_run c) = Completes 60 ''ok''"
| "probe_hangs ev = Completes 1 []"



text \<open>A project name of fifty capital I with a dot above.\<close>

definition fifty_dotted :: string where
  "fifty_dotted = concat (replicate 50 capital_i_dot)"

text \<open>A command line run that prints 6000 characters.\<close>

definition big_output :: completed_process where
  "big_output = CompletedProcess 0 (replicate 6000 CHR ''x'') []"

definition small_output :: completed_process where
  "small_output = CompletedProcess 0 ''done'' []"

section \<open>Properties of the string functions\<close>

lemma len_take_chars: "len (take_chars n s) \<le> n"
  by (induction n s rule: take_chars.induct) (auto simp: len_def split: nat.splits)

lemma len_le_length: "len s \<le> length s"
  by (simp add: len_def)

lemma len_replicate_ascii: "\<not> is_continuation c \<Longrightarrow> len (replicate n c) = n"
  by (induction n) (simp_all add: len_def)

lemma take_chars_dotted:
  "\<not> is_continuation c \<Longrightarrow>
     take_chars n (concat (replicate n capital_i_dot) @ c # cs) = concat (replicate n capital_i_dot)"
  by (induction n) (simp_all add: capital_i_dot_def)

lemma replace_dotted:
  "replace_str '' '' ''-'' (concat (replicate n capital_i_dot)) = concat (replicate n capital_i_dot)"
  by (induction n) (simp_all add: capital_i_dot_def)

lemma lower_dotted:
  "lower (concat (replicate n capital_i_dot)) = concat (replicate n small_i_dot)"
  by (induction n) (simp_all add: capital_i_dot_def)

lemma len_small_dotted: "len (concat (replicate n small_i_dot)) = 2 * n"
  by (induction n) (simp_all add: small_i_dot_def len_def)

lemma len_capital_dotted: "len (concat (replicate n capital_i_dot)) = n"
  by (induction n) (simp_all add: capital_i_dot_def len_def)

lemma lower_without_dotted: "CHR 0xC4 \<notin> set s \<Longrightarrow> lower s = map lower_chr s"
  by (induction s rule: lower.induct) (auto simp: capital_i_dot_def)

lemma is_continuation_lower_chr: "is_continuation (lower_chr c) = is_continuation c"
  by (cases "c \<in> set ascii_uppercase")
    (auto simp: lower_chr_def ascii_uppercase_def ascii_lowercase_def)

lemma len_map_lower_chr: "len (map lower_chr s) = len s"
  by (induction s) (simp_all add: len_def is_continuation_lower_chr)

lemma len_replace_space: "len (replace_str '' '' ''-'' s) = len s"
  by (induction s) (auto simp: len_def)

lemma set_take_chars: "set (take_chars n s) \<subseteq> set s"
  by (induction n s rule: take_chars.induct) (auto split: nat.splits)

lemma set_replace_space: "set (replace_str '' '' ''-'' s) \<subseteq> insert CHR ''-'' (set s)"
  by (induction s) auto

lemma set_replace_by_nothing: "set (replace_str old [] s) \<subseteq> set s"
proof (induction old "[] :: string" s rule: replace_str.induct)
  case (1 old)
  then show ?case by simp
next
  case (2 old c cs)
  then show ?case
    using set_drop_subset [of "length old - 1" cs] by (auto split: if_splits)
qed

lemma set_split_chr: "w \<in> set (split_chr sep s) \<Longrightarrow> set w \<subseteq> set s"
  by (induction s arbitrary: w) (fastforce split: if_splits list.splits)+

lemma split_chr_nonempty: "split_chr sep s \<noteq> []"
  by (induction s) (auto split: list.splits)

lemma set_rstrip_chr: "set (rstrip_chr c s) \<subseteq> set s"
  unfolding rstrip_chr_def using set_dropWhileD [of _ "\<lambda>x. x = c" "rev s"] by auto

lemma studio_name_bound:
  assumes "CHR 0xC4 \<notin> set project_name" and "CHR 0xC4 \<notin> set repo_url"
  shows "len (studio_name_of project_name repo_url) \<le> 50"
proof -
  define repo_name where
    "repo_name = replace_str ''.git'' [] (last (split_chr CHR ''/'' (rstrip_chr CHR ''/'' repo_url)))"
  define t where "t = replace_str '' '' ''-'' (take_chars 50 (project_name @ ''-'' @ repo_name))"
  have "set (last (split_chr CHR ''/'' (rstrip_chr CHR ''/'' repo_url))) \<subseteq> set repo_url"
    using set_split_chr [OF last_in_set [OF split_chr_nonempty]] set_rstrip_chr by blast
  then have "set repo_name \<subseteq> set repo_url"
    unfolding repo_name_def using set_replace_by_nothing by blast
  then have "CHR 0xC4 \<notin> set (project_name @ ''-'' @ repo_name)"
    using assms by auto
  then have "CHR 0xC4 \<notin> set t"
    unfolding t_def using set_take_chars set_replace_space by fastforce
  then have "lower t = map lower_chr t" by (rule lower_without_dotted)
  moreover have "len t \<le> 50"
    unfolding t_def by (simp add: len_replace_space len_take_chars)
  moreover have "studio_name_of project_name repo_url = lower t"
    unfolding studio_name_of_def Let_def t_def repo_name_def ..
  ultimately show ?thesis by (simp add: len_map_lower_chr)
qed

lemma set_replace_chr: "a \<noteq> b \<Longrightarrow> a \<notin> set (replace_str [a] [b] s)"
  by (induction s) auto

lemma lower_chr_not_upper: "\<not> is_upper (lower_chr c)"
  by (auto simp: lower_chr_def is_upper_def ascii_uppercase_def ascii_lowercase_def)

lemma lower_chr_space: "lower_chr c = CHR '' '' \<Longrightarrow> c = CHR '' ''"
  by (auto simp: lower_chr_def is_upper_def ascii_uppercase_def ascii_lowercase_def
      split: if_splits)

lemma small_i_dot_no_upper: "\<not> list_ex is_upper small_i_dot"
  by (simp add: small_i_dot_def is_upper_def ascii_uppercase_def)

lemma lower_no_upper: "\<not> list_ex is_upper (lower s)"
  by (induction s rule: lower.induct)
    (simp_all add: lower_chr_not_upper small_i_dot_no_upper)

lemma lower_no_space: "CHR '' '' \<notin> set s \<Longrightarrow> CHR '' '' \<notin> set (lower s)"
  by (induction s rule: lower.induct)
    (auto simp: small_i_dot_def dest: lower_chr_space [OF sym])

lemma studio_name_lowercase_no_space:
  "\<not> list_ex is_upper (studio_name_of project_name repo_url)
   \<and> CHR '' '' \<notin> set (studio_name_of project_name repo_url)"
  by (simp add: studio_name_of_def Let_def lower_no_upper lower_no_space set_replace_chr)

text \<open>
  C8. The studio name is cut to 50 characters before it is lowered, and lowering can
  make it longer: for a project name of fifty capital I with a dot above (50
  characters) the studio name has 100 characters. Without that character the name has
  at most 50 characters (\<open>studio_name_bound\<close>), and in every case it has no ASCII capital
  and no space (\<open>studio_name_lowercase_no_space\<close>).
\<close>

theorem studio_name_longer_than_50:
  "len fifty_dotted = 50
   \<and> len (studio_name_of fifty_dotted ''https://github.com/u/r'') = 100"
proof -
  have r: "replace_str ''.git'' [] (last (split_chr CHR ''/''
             (rstrip_chr CHR ''/'' ''https://github.com/u/r''))) = ''r''"
    by (simp add: rstrip_chr_def)
  have "studio_name_of fifty_dotted ''https://github.com/u/r''
          = concat (replicate 50 small_i_dot)"
    unfolding studio_name_of_def Let_def r fifty_dotted_def
    using take_chars_dotted [of "CHR ''-''" 50 "''r''"]
    by (simp add: replace_dotted lower_dotted)
  then show ?thesis
    by (simp add: len_small_dotted len_capital_dotted fifty_dotted_def)
qed

section \<open>Properties of run_with_timeout\<close>

lemma alarm_signal_alarm_0: "alarm (signal_alarm 0 w) = None"
  by (simp add: signal_alarm_def log_def)

lemma alarm_run_with_timeout: "alarm (snd (run_with_timeout func n w)) = None"
  by (simp add: run_with_timeout_def alarm_signal_alarm_0 split: prod.splits outcome.splits)

lemma fst_run_with_timeout: "fst (run_with_timeout func n w) = fst (func (signal_alarm n w))"
  by (simp add: run_with_timeout_def split: prod.splits outcome.splits)

lemma snd_run_with_timeout:
  "snd (run_with_timeout func n w) = signal_alarm 0 (snd (func (signal_alarm n w)))"
  by (simp add: run_with_timeout_def split: prod.splits outcome.splits)


lemma run_with_timeout_caught:
  "run_with_timeout_any (caught func) n w = caught (run_with_timeout func n) w"
  by (simp add: run_with_timeout_any_def run_with_timeout_def caught_def
      split: prod.splits outcome.splits)








section \<open>Evaluation\<close>

text \<open>The definitions a run on a scenario unfolds, and a few values used more than once.\<close>

lemmas eval_defs = lower_chr_def ascii_uppercase_def ascii_lowercase_def capital_i_dot_def
  small_i_dot_def install_or_download_def timeout_seconds_of_def

lemmas eval_strings = lower_chr_def ascii_uppercase_def ascii_lowercase_def capital_i_dot_def
  small_i_dot_def rstrip_chr_def str_nat.simps

lemmas eval_run = run_with_timeout_def run_cmd_def call_def perform_def signal_alarm_def
  log_def scenario_def init_world_def results_init_def cmd_ok_def cmd_failed_def
  cmd_timed_out_def timed_out_msg_def quoted_def install_or_download_def
  timeout_seconds_of_def full_cmd_def

lemmas eval_cloud = execute_in_cloud_def primary_path_def run_in_studio_def acquire_studio_def
  start_studio_def test_studio_def clone_repo_def cleanup_studio_def promote_def
  install_succeeded_def truthy_def py_or_def teamspace_of_def repo_dir_of_def
  clone_result_def probe_cmd_def studio_name_of_def creation_failed_def Let_def

lemma t_pip: "timeout_seconds_of ''pip install x'' = 600"
  by (simp add: eval_defs)

lemma t_pytest: "timeout_seconds_of ''pytest'' = 300"
  by (simp add: eval_defs)

lemma i_pip: "install_or_download ''pip install x''"
  by (simp add: eval_defs)

lemma i_pytest: "\<not> install_or_download ''pytest''"
  by (simp add: eval_defs)

lemma scenario_key: "truthy (environ (scenario respond cp) ''LIGHTNING_API_KEY'')"
  by (simp add: scenario_def truthy_def)

lemma scenario_user:
  "py_or (environ (scenario respond cp) ''LIGHTNING_USERNAME'')
     (environ (scenario respond cp) ''LIGHTNING_USER_ID'') = Some ''alice''"
  by (simp add: scenario_def truthy_def py_or_def)


lemma run_test_fails:
  "fst (execute_in_cloud (scenario test_fails small_output)
      ''https://github.com/u/r'' ''p'' [''pip install x'', ''pytest''])
   = \<lparr>success = True,
       outputs = [\<lparr>command = ''git clone https://github.com/u/r'', stdout = ''ok'',
                   stderr = [], exitCode = 0, o_success = True\<rparr>,
                  \<lparr>command = ''pip install x'', stdout = ''ok'', stderr = [],
                    exitCode = 0, o_success = True\<rparr>,
                  \<lparr>command = ''pytest'', stdout = [], stderr = ''1 failed'',
                    exitCode = 1, o_success = False\<rparr>],
       errors = [''Command '' @ [CHR 0x27] @ ''pytest'' @ [CHR 0x27]
                   @ '' failed: 1 failed'']\<rparr>"
  by (simp add: eval_cloud eval_run eval_strings)

lemma run_install_hangs:
  "fst (execute_in_cloud (scenario install_hangs small_output)
      ''https://github.com/u/r'' ''p'' [''pip install x'', ''pytest''])
   = \<lparr>success = True,
       outputs = [\<lparr>command = ''git clone https://github.com/u/r'', stdout = ''ok'',
                   stderr = [], exitCode = 0, o_success = True\<rparr>,
                  \<lparr>command = ''pip install x'', stdout = [],
                    stderr = ''Command timed out after 600s'', exitCode = 124,
                    o_success = False\<rparr>,
                  \<lparr>command = ''pytest'', stdout = ''ok'', stderr = [], exitCode = 0,
                    o_success = True\<rparr>],
       errors = [''Command '' @ [CHR 0x27] @ ''pip install x'' @ [CHR 0x27]
                   @ '' Command timed out after 600s'']\<rparr>"
  by (simp add: eval_cloud eval_run eval_strings)

lemma run_test_then_install_fail:
  "fst (execute_in_cloud (scenario test_and_install_fail small_output)
      ''https://github.com/u/r'' ''p'' [''pytest'', ''pip install x'', ''ls''])
   = \<lparr>success = False,
       outputs = [\<lparr>command = ''git clone https://github.com/u/r'', stdout = ''ok'',
                   stderr = [], exitCode = 0, o_success = True\<rparr>,
                  \<lparr>command = ''pytest'', stdout = [], stderr = ''1 failed'',
                    exitCode = 1, o_success = False\<rparr>,
                  \<lparr>command = ''pip install x'', stdout = [], stderr = ''no such package'',
                    exitCode = 1, o_success = False\<rparr>],
       errors = [''Command '' @ [CHR 0x27] @ ''pytest'' @ [CHR 0x27] @ '' failed: 1 failed'',
                 ''Command '' @ [CHR 0x27] @ ''pip install x'' @ [CHR 0x27]
                   @ '' failed: no such package'']\<rparr>"
  by (simp add: eval_cloud eval_run eval_strings)

lemma run_download_then_install_fails:
  "fst (execute_in_cloud (scenario install_fails small_output)
      ''https://github.com/u/r'' ''p'' [''python download_data.py'', ''pip install x''])
   = \<lparr>success = False,
       outputs = [\<lparr>command = ''git clone https://github.com/u/r'', stdout = ''ok'',
                   stderr = [], exitCode = 0, o_success = True\<rparr>,
                  \<lparr>command = ''python download_data.py'', stdout = ''ok'', stderr = [],
                    exitCode = 0, o_success = True\<rparr>,
                  \<lparr>command = ''pip install x'', stdout = [], stderr = ''no such package'',
                    exitCode = 1, o_success = False\<rparr>],
       errors = [''Command '' @ [CHR 0x27] @ ''pip install x'' @ [CHR 0x27]
                   @ '' failed: no such package'']\<rparr>"
  by (simp add: eval_cloud eval_run eval_strings)

section \<open>Properties of the command loop\<close>

lemma trace_perform: "trace (snd (perform act w)) = trace w"
  by (simp add: perform_def split: option.splits)

lemma trace_call: "trace (snd (call env ev w)) = trace w @ [ev]"
  by (simp add: call_def trace_perform log_def)



lemma trace_signal_alarm: "trace (signal_alarm n w) = trace w @ [Signal_alarm n]"
  by (simp add: signal_alarm_def log_def)

lemma trace_run_cmd:
  "trace (snd (run_with_timeout (run_cmd env repo_dir cmd) (timeout_seconds_of cmd + 30) w))
     = trace w @ command_events repo_dir cmd"
  by (simp add: snd_run_with_timeout trace_signal_alarm run_cmd_def trace_call
      command_events_def full_cmd_def)


lemma call_eq_trace: "call env ev w = (r, w1) \<Longrightarrow> trace w1 = trace w @ [ev]"
  using trace_call [of env ev w] by simp

lemma length_outcomes_of: "length (outcomes_of env repo_dir cmds w) = length cmds"
  by (induction cmds arbitrary: w) simp_all

lemma attempted_le: "attempted cmds outs \<le> length cmds"
  by (induction cmds outs rule: attempted.induct) simp_all

lemma attempted_le_outs: "attempted cmds outs \<le> length outs"
  by (induction cmds outs rule: attempted.induct) simp_all

lemma length_results_for:
  "length (results_for (take (attempted cmds outs) cmds) outs) = attempted cmds outs"
  by (induction cmds outs rule: attempted.induct) simp_all

lemma command_results_for:
  "map command (results_for cmds outs) = take (length outs) cmds"
proof (induction cmds outs rule: results_for.induct)
  case (1 cmd cmds res outs)
  then show ?case
    by (cases res) (simp_all add: cmd_ok_def cmd_timed_out_def cmd_failed_def)
qed simp_all

lemma attempted_stop:
  "i < attempted cmds outs \<Longrightarrow> stops (cmds ! i) (outs ! i) \<Longrightarrow> Suc i = attempted cmds outs"
proof (induction cmds outs arbitrary: i rule: attempted.induct)
  case (1 cmd cmds res outs)
  then show ?case by (cases i) (auto split: if_splits)
qed simp_all

lemma attempted_go:
  "i < attempted cmds outs \<Longrightarrow> \<not> stops (cmds ! i) (outs ! i) \<Longrightarrow>
     length outs = length cmds \<Longrightarrow> Suc i < length cmds \<Longrightarrow> Suc i < attempted cmds outs"
proof (induction cmds outs arbitrary: i rule: attempted.induct)
  case (1 cmd cmds res outs)
  show ?case
  proof (cases i)
    case 0
    with 1 show ?thesis by (cases cmds; cases outs) (auto split: if_splits)
  next
    case (Suc j)
    with 1 show ?thesis by (auto split: if_splits)
  qed
qed simp_all

lemma attempted_short:
  "length outs = length cmds \<Longrightarrow> attempted cmds outs < length cmds \<Longrightarrow>
     0 < attempted cmds outs
     \<and> stops (cmds ! (attempted cmds outs - 1)) (outs ! (attempted cmds outs - 1))"
proof (induction cmds outs rule: attempted.induct)
  case (1 cmd cmds res outs)
  show ?case
  proof (cases "stops cmd res")
    case True
    then show ?thesis by simp
  next
    case False
    with 1 have "0 < attempted cmds outs
     \<and> stops (cmds ! (attempted cmds outs - 1)) (outs ! (attempted cmds outs - 1))"
      by simp
    with False show ?thesis by (cases "attempted cmds outs") simp_all
  qed
qed simp_all

lemma any_stops_iff:
  "any_stops cmds outs \<longleftrightarrow> (\<exists>i < attempted cmds outs. stops (cmds ! i) (outs ! i))"
proof (induction cmds outs rule: attempted.induct)
  case (1 cmd cmds res outs)
  show ?case
  proof (cases "stops cmd res")
    case True
    then show ?thesis by auto
  next
    case False
    have "(\<exists>i<Suc (attempted cmds outs). stops ((cmd # cmds) ! i) ((res # outs) ! i))
            \<longleftrightarrow> (\<exists>i<attempted cmds outs. stops (cmds ! i) (outs ! i))"
      using False by (auto simp: less_Suc_eq_0_disj)
    with 1 False show ?thesis by simp
  qed
qed simp_all

lemma run_commands_outcomes:
  "outputs (fst (run_commands env repo_dir cmds (r, w)))
     = outputs r @ results_for (take (attempted cmds (outcomes_of env repo_dir cmds w)) cmds)
         (outcomes_of env repo_dir cmds w)
   \<and> errors (fst (run_commands env repo_dir cmds (r, w)))
     = errors r @ errors_for (take (attempted cmds (outcomes_of env repo_dir cmds w)) cmds)
         (outcomes_of env repo_dir cmds w)
   \<and> success (fst (run_commands env repo_dir cmds (r, w)))
     = (success r \<and> \<not> any_stops cmds (outcomes_of env repo_dir cmds w))
   \<and> trace (snd (run_commands env repo_dir cmds (r, w)))
     = trace w @ concat (map (command_events repo_dir)
         (take (attempted cmds (outcomes_of env repo_dir cmds w)) cmds))"
proof (induction cmds arbitrary: r w)
  case Nil
  show ?case by simp
next
  case (Cons cmd cmds)
  obtain res w1 where step:
    "run_with_timeout (run_cmd env repo_dir cmd) (timeout_seconds_of cmd + 30) w = (res, w1)"
    by (cases "run_with_timeout (run_cmd env repo_dir cmd) (timeout_seconds_of cmd + 30) w")
  have tr1: "trace w1 = trace w @ command_events repo_dir cmd"
    using trace_run_cmd [of env repo_dir cmd w] step by simp
  show ?case
  proof (cases res)
    case (Ok out)
    show ?thesis
      using Cons.IH [of "r\<lparr>outputs := outputs r @ [cmd_ok cmd out]\<rparr>" w1]
      by (simp add: step Ok tr1)
  next
    case TimeoutError
    show ?thesis
      using Cons.IH [of "r\<lparr>outputs := outputs r @ [cmd_timed_out cmd],
          errors := errors r @ [''Command '' @ quoted cmd @ '' '' @ timed_out_msg cmd]\<rparr>" w1]
      by (simp add: step TimeoutError tr1)
  next
    case (Exception e)
    show ?thesis
    proof (cases "install_or_download cmd")
      case True
      then show ?thesis by (simp add: step Exception tr1)
    next
      case False
      then show ?thesis
        using Cons.IH [of "r\<lparr>outputs := outputs r @ [cmd_failed cmd e],
          errors := errors r @ [''Command '' @ quoted cmd @ '' failed: '' @ take_chars 500 e]\<rparr>" w1]
        by (simp add: step Exception tr1 Let_def)
    qed
  qed
qed

text \<open>
  C2, as amended. For every command list, with \<open>outs\<close> what the guarded calls of the
  commands give and \<open>n\<close> the number of commands attempted: the loop records, in order,
  the result and the error that belong to the outcome of each of the first \<open>n\<close>
  commands, and the trace grows by the calls of exactly these commands. A command of the
  installation or download kind whose call raises an exception that is no timeout is
  the last command attempted, and success is then false. After a command that times
  out, that returns, or that is of another kind, the next command of the list is
  attempted. A command is left out only after such a failure of an installation or
  download command, and the success flag is cleared by such a failure only.
\<close>

theorem install_failure_stops_commands:
  assumes "run_commands env repo_dir cmds (r, w) = (r', w')"
    and "outs = outcomes_of env repo_dir cmds w"
    and "n = attempted cmds outs"
  shows "n \<le> length cmds
     \<and> outputs r' = outputs r @ results_for (take n cmds) outs
     \<and> errors r' = errors r @ errors_for (take n cmds) outs
     \<and> trace w' = trace w @ concat (map (command_events repo_dir) (take n cmds))
     \<and> (\<forall>i<n. install_or_download (cmds ! i) \<and> (\<exists>e. outs ! i = Exception e)
            \<longrightarrow> Suc i = n \<and> \<not> success r')
     \<and> (\<forall>i<n. outs ! i = TimeoutError \<or> is_ok (outs ! i) \<or> \<not> install_or_download (cmds ! i)
            \<longrightarrow> Suc i < n \<or> Suc i = length cmds)
     \<and> (n < length cmds \<longrightarrow>
          0 < n \<and> install_or_download (cmds ! (n - 1)) \<and> (\<exists>e. outs ! (n - 1) = Exception e))
     \<and> success r'
         = (success r
            \<and> \<not> (\<exists>i<n. install_or_download (cmds ! i) \<and> (\<exists>e. outs ! i = Exception e)))"
proof -
  have stops_iff: "stops c x \<longleftrightarrow> install_or_download c \<and> (\<exists>e. x = Exception e)" for c x
    by (cases x) simp_all
  have go_iff: "x = TimeoutError \<or> is_ok x \<or> \<not> install_or_download c \<longleftrightarrow> \<not> stops c x"
    for c x
    by (cases x) simp_all
  have len: "length outs = length cmds"
    by (simp add: assms(2) length_outcomes_of)
  have rc: "fst (run_commands env repo_dir cmds (r, w)) = r'"
    "snd (run_commands env repo_dir cmds (r, w)) = w'"
    using assms(1) by simp_all
  have R: "outputs r' = outputs r @ results_for (take n cmds) outs
     \<and> errors r' = errors r @ errors_for (take n cmds) outs
     \<and> success r' = (success r \<and> \<not> any_stops cmds outs)
     \<and> trace w' = trace w @ concat (map (command_events repo_dir) (take n cmds))"
    unfolding assms(3) assms(2)
    using run_commands_outcomes [of env repo_dir cmds r w] unfolding rc .
  have s: "success r' = (success r \<and> \<not> (\<exists>i<n. stops (cmds ! i) (outs ! i)))"
    using R any_stops_iff [of cmds outs] unfolding assms(3) by blast
  show ?thesis
    unfolding stops_iff [symmetric] go_iff
  proof (intro conjI allI impI)
    show "n \<le> length cmds" unfolding assms(3) by (rule attempted_le)
    show "outputs r' = outputs r @ results_for (take n cmds) outs" using R by blast
    show "errors r' = errors r @ errors_for (take n cmds) outs" using R by blast
    show "trace w' = trace w @ concat (map (command_events repo_dir) (take n cmds))"
      using R by blast
    show "success r' = (success r \<and> \<not> (\<exists>i<n. stops (cmds ! i) (outs ! i)))" by (rule s)
  next
    fix i assume i: "i < n" and st: "stops (cmds ! i) (outs ! i)"
    show "Suc i = n" using attempted_stop [of i cmds outs] i st unfolding assms(3) by simp
    show "\<not> success r'" using s i st by blast
  next
    fix i assume i: "i < n" and ns: "\<not> stops (cmds ! i) (outs ! i)"
    have le: "n \<le> length cmds" unfolding assms(3) by (rule attempted_le)
    show "Suc i < n \<or> Suc i = length cmds"
    proof (cases "Suc i < length cmds")
      case True
      then have "Suc i < attempted cmds outs"
        using attempted_go [of i cmds outs] i ns len unfolding assms(3) by simp
      then show ?thesis unfolding assms(3) by simp
    next
      case False
      then show ?thesis using i le by simp
    qed
  next
    assume "n < length cmds"
    then have a: "0 < attempted cmds outs
      \<and> stops (cmds ! (attempted cmds outs - 1)) (outs ! (attempted cmds outs - 1))"
      using attempted_short [OF len] unfolding assms(3) by simp
    show "0 < n" using a unfolding assms(3) by simp
    show "stops (cmds ! (n - 1)) (outs ! (n - 1))" using a unfolding assms(3) by simp
  qed
qed

theorem install_failure_stops_commands_witness:
  "outcomes_of (scenario install_fails small_output) ''/repo'' [''pip install x'', ''pytest'']
      init_world = [Exception ''no such package'', Ok ''ok'']
   \<and> map command (outputs (fst (run_commands (scenario install_fails small_output) ''/repo''
      [''pip install x'', ''pytest''] (results_init, init_world)))) = [''pip install x'']
   \<and> \<not> success (fst (run_commands (scenario install_fails small_output) ''/repo''
        [''pip install x'', ''pytest''] (results_init, init_world)))
   \<and> trace (snd (run_commands (scenario install_fails small_output) ''/repo''
        [''pip install x'', ''pytest''] (results_init, init_world)))
       = [Signal_alarm 630, Studio_run ''cd /repo && timeout 600 pip install x'', Signal_alarm 0]
   \<and> outcomes_of (scenario install_hangs small_output) ''/repo'' [''pip install x'', ''pytest'']
      init_world = [TimeoutError, Ok ''ok'']
   \<and> map exitCode (outputs (fst (run_commands (scenario install_hangs small_output) ''/repo''
        [''pip install x'', ''pytest''] (results_init, init_world)))) = [124, 0]
   \<and> success (fst (run_commands (scenario install_hangs small_output) ''/repo''
        [''pip install x'', ''pytest''] (results_init, init_world)))"
proof -
  have run: "run_commands (scenario install_fails small_output) ''/repo''
      [''pip install x'', ''pytest''] (results_init, init_world)
    = (\<lparr>success = False, outputs = [cmd_failed ''pip install x'' ''no such package''],
        errors = [''Command '' @ quoted ''pip install x'' @ '' failed: no such package'']\<rparr>,
       \<lparr>alarm = None,
        trace = [Signal_alarm 630, Studio_run ''cd /repo && timeout 600 pip install x'',
                 Signal_alarm 0]\<rparr>)"
    by (simp add: eval_run eval_strings)
  have outs: "outcomes_of (scenario install_fails small_output) ''/repo''
      [''pip install x'', ''pytest''] init_world = [Exception ''no such package'', Ok ''ok'']"
    by (simp add: eval_run eval_strings)
  have hangs: "run_commands (scenario install_hangs small_output) ''/repo''
      [''pip install x'', ''pytest''] (results_init, init_world)
    = (\<lparr>success = True,
        outputs = [cmd_timed_out ''pip install x'', cmd_ok ''pytest'' ''ok''],
        errors = [''Command '' @ quoted ''pip install x'' @ '' ''
                    @ timed_out_msg ''pip install x'']\<rparr>,
       \<lparr>alarm = None,
        trace = [Signal_alarm 630, Studio_run ''cd /repo && timeout 600 pip install x'',
                 Signal_alarm 0,
                 Signal_alarm 330, Studio_run ''cd /repo && timeout 300 pytest'',
                 Signal_alarm 0]\<rparr>)"
    by (simp add: eval_run eval_strings)
  have outs_hangs: "outcomes_of (scenario install_hangs small_output) ''/repo''
      [''pip install x'', ''pytest''] init_world = [TimeoutError, Ok ''ok'']"
    by (simp add: eval_run eval_strings)
  note ip = i_pip
  have att: "attempted [''pip install x'', ''pytest''] [Exception ''no such package'', Ok ''ok'']
      = 1"
    by (simp add: ip)
  have att_hangs: "attempted [''pip install x'', ''pytest''] [TimeoutError, Ok ''ok''] = 2"
    by simp
  note f = install_failure_stops_commands [OF run refl refl, unfolded outs att]
  note h = install_failure_stops_commands [OF hangs refl refl, unfolded outs_hangs att_hangs]
  note f_outputs = f [THEN conjunct2, THEN conjunct1]
  note f_trace = f [THEN conjunct2, THEN conjunct2, THEN conjunct2, THEN conjunct1]
  note f_stop = f [THEN conjunct2, THEN conjunct2, THEN conjunct2, THEN conjunct2,
      THEN conjunct1, rule_format, of 0]
  note h_outputs = h [THEN conjunct2, THEN conjunct1]
  note h_go = h [THEN conjunct2, THEN conjunct2, THEN conjunct2, THEN conjunct2,
      THEN conjunct2, THEN conjunct1, rule_format, of 0]
  have stopped: "\<not> success (fst (run_commands (scenario install_fails small_output) ''/repo''
        [''pip install x'', ''pytest''] (results_init, init_world)))"
    unfolding run using f_stop ip by simp
  show ?thesis
    using f_outputs f_trace h_outputs h_go stopped
    unfolding run hangs outs outs_hangs
    by (simp add: cmd_failed_def cmd_timed_out_def cmd_ok_def results_init_def)
qed

text \<open>
  C2 as stated fails in two runs. In the first the failure is a timeout:
  \<^verbatim>\<open>pip install x\<close> runs into its guard, its result is recorded as unsuccessful, and yet
  \<^verbatim>\<open>pytest\<close> is run and the success flag stays true. In the second \<^verbatim>\<open>pytest\<close>, a command
  of another kind, fails, then \<^verbatim>\<open>pip install x\<close> fails, and \<^verbatim>\<open>ls\<close>, which comes after
  both, is not attempted.
\<close>

theorem stop_rule_counterexamples:
  "map command (outputs (fst (execute_in_cloud (scenario install_hangs small_output)
      ''https://github.com/u/r'' ''p'' [''pip install x'', ''pytest''])))
     = [''git clone https://github.com/u/r'', ''pip install x'', ''pytest'']
   \<and> map o_success (outputs (fst (execute_in_cloud (scenario install_hangs small_output)
        ''https://github.com/u/r'' ''p'' [''pip install x'', ''pytest''])))
       = [True, False, True]
   \<and> success (fst (execute_in_cloud (scenario install_hangs small_output)
        ''https://github.com/u/r'' ''p'' [''pip install x'', ''pytest'']))
   \<and> map command (outputs (fst (execute_in_cloud (scenario test_and_install_fail small_output)
        ''https://github.com/u/r'' ''p'' [''pytest'', ''pip install x'', ''ls''])))
       = [''git clone https://github.com/u/r'', ''pytest'', ''pip install x'']"
  by (simp add: run_install_hangs run_test_then_install_fail)

subsection \<open>Timeouts\<close>

lemma lower_chr_C4: "lower_chr (CHR 0xC4) = CHR 0xC4"
  by (simp add: lower_chr_def ascii_uppercase_def ascii_lowercase_def)

lemma plain_keyword_tl: "plain_keyword (k # ks) \<Longrightarrow> ks \<noteq> [] \<Longrightarrow> plain_keyword ks"
  by (auto simp: plain_keyword_def)

lemma prefix_lower:
  "plain_keyword kw \<Longrightarrow> prefix kw (lower s) \<longleftrightarrow> prefix kw (map lower_chr s)"
proof (induction s arbitrary: kw rule: lower.induct)
  case 1
  then show ?case by simp
next
  case (2 c)
  then show ?case by simp
next
  case (3 c d cs)
  obtain k ks where kw: "kw = k # ks"
    using "3.prems" by (cases kw) (auto simp: plain_keyword_def)
  show ?case
  proof (cases "c # [d] = capital_i_dot")
    case True
    then have c: "c = CHR 0xC4" and d: "d = CHR 0xB0" by (simp_all add: capital_i_dot_def)
    have "\<not> prefix kw (small_i_dot @ lower cs)"
      using "3.prems" unfolding kw
      by (cases ks) (auto simp: plain_keyword_def small_i_dot_def)
    moreover have "\<not> prefix kw (map lower_chr (c # d # cs))"
      using "3.prems" unfolding kw c by (auto simp: plain_keyword_def lower_chr_C4)
    ultimately show ?thesis using True by simp
  next
    case False
    show ?thesis
    proof (cases "ks = []")
      case True
      then show ?thesis using False by (simp add: kw)
    next
      case nonempty: False
      have "prefix ks (lower (d # cs)) \<longleftrightarrow> prefix ks (map lower_chr (d # cs))"
        using "3.IH"(2) [OF False, of ks] plain_keyword_tl [of k ks] "3.prems" nonempty
        by (simp add: kw)
      then show ?thesis using False by (simp add: kw)
    qed
  qed
qed

lemma str_in_lower:
  "plain_keyword kw \<Longrightarrow> str_in kw (lower s) \<longleftrightarrow> str_in kw (map lower_chr s)"
proof (induction s rule: lower.induct)
  case 1
  then show ?case by simp
next
  case (2 c)
  then show ?case by simp
next
  case (3 c d cs)
  obtain k ks where kw: "kw = k # ks"
    using "3.prems" by (cases kw) (auto simp: plain_keyword_def)
  note p = prefix_lower [OF "3.prems", of "c # d # cs"]
  show ?case
  proof (cases "c # [d] = capital_i_dot")
    case True
    then have c: "c = CHR 0xC4" and d: "d = CHR 0xB0" by (simp_all add: capital_i_dot_def)
    have k: "k \<noteq> CHR 0xCC" "k \<noteq> CHR 0x87" "k \<noteq> CHR 0xB0"
      using "3.prems" by (auto simp: plain_keyword_def kw)
    have b: "lower_chr (CHR 0xB0) = CHR 0xB0"
      by (simp add: lower_chr_def ascii_uppercase_def ascii_lowercase_def)
    have 1: "str_in kw (lower (c # d # cs))
               \<longleftrightarrow> prefix kw (lower (c # d # cs)) \<or> str_in kw (lower cs)"
      using True k by (simp add: small_i_dot_def kw)
    have 2: "str_in kw (map lower_chr (c # d # cs))
               \<longleftrightarrow> prefix kw (map lower_chr (c # d # cs)) \<or> str_in kw (map lower_chr cs)"
      using k by (simp add: kw c d b)
    show ?thesis
      unfolding 1 2 using p "3.IH"(1) [OF True "3.prems"] by simp
  next
    case False
    have 1: "str_in kw (lower (c # d # cs))
               \<longleftrightarrow> prefix kw (lower (c # d # cs)) \<or> str_in kw (lower (d # cs))"
      using False by simp
    have 2: "str_in kw (map lower_chr (c # d # cs))
               \<longleftrightarrow> prefix kw (map lower_chr (c # d # cs)) \<or> str_in kw (map lower_chr (d # cs))"
      by simp
    show ?thesis
      unfolding 1 2 using p "3.IH"(2) [OF False "3.prems"] by simp
  qed
qed

lemma lower_plain_or_dotted:
  "lower v = map lower_chr v
   \<or> (CHR 0xCC \<in> set (lower v) \<and> CHR 0xC4 \<in> set (map lower_chr v))"
  by (induction v rule: lower.induct)
    (auto simp: small_i_dot_def capital_i_dot_def lower_chr_C4)

lemma lower_eq_keyword:
  "plain_keyword kw \<Longrightarrow> lower v = kw \<longleftrightarrow> map lower_chr v = kw"
  using lower_plain_or_dotted [of v] by (auto simp: plain_keyword_def)

lemma str_in_iff: "str_in sub s \<longleftrightarrow> (\<exists>u w. s = u @ sub @ w)"
proof
  assume "str_in sub s"
  then show "\<exists>u w. s = u @ sub @ w"
  proof (induction s)
    case Nil
    then show ?case by simp
  next
    case (Cons c cs)
    show ?case
    proof (cases "prefix sub (c # cs)")
      case True
      then obtain w where "c # cs = sub @ w" by (auto simp: prefix_def)
      then have "c # cs = [] @ sub @ w" by simp
      then show ?thesis by blast
    next
      case False
      with Cons obtain u w where "cs = u @ sub @ w" by auto
      then have "c # cs = (c # u) @ sub @ w" by simp
      then show ?thesis by blast
    qed
  qed
next
  assume "\<exists>u w. s = u @ sub @ w"
  then obtain u w where s: "s = u @ sub @ w" by blast
  show "str_in sub s"
    unfolding s
  proof (induction u)
    case Nil
    have p: "prefix sub (sub @ w)" by simp
    show ?case
    proof (cases "sub @ w")
      case Nil
      then show ?thesis by simp
    next
      case (Cons a l)
      with p show ?thesis by simp
    qed
  next
    case (Cons a u)
    then show ?case by simp
  qed
qed

lemma spec_mentions_iff:
  assumes "plain_keyword keyword"
  shows "spec_mentions keyword cmd \<longleftrightarrow> str_in keyword (lower cmd)"
proof -
  have "(\<exists>u v w. cmd = u @ v @ w \<and> map lower_chr v = keyword)
          \<longleftrightarrow> (\<exists>a b. map lower_chr cmd = a @ keyword @ b)"
    by (auto simp: map_eq_append_conv append_eq_map_conv) (metis map_append)+
  then show ?thesis
    by (simp add: spec_mentions_def str_in_iff [symmetric] lower_eq_keyword [OF assms]
        str_in_lower [OF assms])
qed

lemma plain_keywords:
  "plain_keyword ''install''" "plain_keyword ''download''" "plain_keyword ''test''"
  by (simp_all add: plain_keyword_def)

text \<open>
  C6. The budget of a command is 600 seconds when its text mentions \<^verbatim>\<open>install\<close> or
  \<^verbatim>\<open>download\<close> in any case of the letters, 300 when it mentions \<^verbatim>\<open>test\<close>, and 180
  otherwise; and for every command list, what the loop adds to the trace is, for each
  command attempted, the alarm set to the budget plus 30 seconds, the remote run of
  \<^verbatim>\<open>cd <repo_dir> && timeout <budget> <command>\<close>, and the alarm cancelled.
\<close>

theorem adaptive_timeouts:
  "timeout_seconds_of cmd =
     (if spec_mentions ''install'' cmd \<or> spec_mentions ''download'' cmd then 600
      else if spec_mentions ''test'' cmd then 300 else 180)
   \<and> trace (snd (run_commands env repo_dir cmds (r, w)))
       = trace w
         @ concat (map (command_events repo_dir)
             (take (length (outputs (fst (run_commands env repo_dir cmds (r, w))))
                      - length (outputs r)) cmds))
   \<and> command_events repo_dir cmd =
       [Signal_alarm (timeout_seconds_of cmd + 30),
        Studio_run (''cd '' @ repo_dir @ '' && timeout '' @ str_nat (timeout_seconds_of cmd)
                    @ '' '' @ cmd),
        Signal_alarm 0]"
proof -
  note n = run_commands_outcomes [of env repo_dir cmds r w]
  have budget: "timeout_seconds_of cmd =
     (if spec_mentions ''install'' cmd \<or> spec_mentions ''download'' cmd then 600
      else if spec_mentions ''test'' cmd then 300 else 180)"
    by (simp add: timeout_seconds_of_def install_or_download_def
        spec_mentions_iff [OF plain_keywords(1)] spec_mentions_iff [OF plain_keywords(2)]
        spec_mentions_iff [OF plain_keywords(3)])
  show ?thesis
    using budget by (simp add: n length_results_for command_events_def)
qed

theorem adaptive_timeouts_witness:
  "timeout_seconds_of ''pip INSTALL x'' = 600
   \<and> timeout_seconds_of ''python Download_data.py'' = 600
   \<and> timeout_seconds_of ''PyTest -q'' = 300
   \<and> timeout_seconds_of ''ls'' = 180
   \<and> trace (snd (run_commands (scenario test_fails small_output) ''/repo'' [''pytest'', ''ls'']
        (results_init, init_world)))
       = [Signal_alarm 330, Studio_run ''cd /repo && timeout 300 pytest'', Signal_alarm 0,
          Signal_alarm 210, Studio_run ''cd /repo && timeout 180 ls'', Signal_alarm 0]"
proof -
  have t: "timeout_seconds_of ''ls'' = 180"
    by (simp add: timeout_seconds_of_def install_or_download_def eval_strings)
  have run: "run_commands (scenario test_fails small_output) ''/repo'' [''pytest'', ''ls'']
        (results_init, init_world)
    = (\<lparr>success = True,
        outputs = [cmd_failed ''pytest'' ''1 failed'', cmd_ok ''ls'' ''ok''],
        errors = [''Command '' @ quoted ''pytest'' @ '' failed: 1 failed'']\<rparr>,
       \<lparr>alarm = None,
        trace = [Signal_alarm 330, Studio_run ''cd /repo && timeout 300 pytest'', Signal_alarm 0,
          Signal_alarm 210, Studio_run ''cd /repo && timeout 180 ls'', Signal_alarm 0]\<rparr>)"
    by (simp add: eval_run eval_strings)
  from adaptive_timeouts [of "''pip INSTALL x''" "scenario test_fails small_output" "''/repo''"
      "[''pytest'', ''ls'']" results_init init_world]
    adaptive_timeouts [of "''python Download_data.py''" "scenario test_fails small_output"
      "''/repo''" "[''pytest'', ''ls'']" results_init init_world]
    adaptive_timeouts [of "''PyTest -q''" "scenario test_fails small_output" "''/repo''"
      "[''pytest'', ''ls'']" results_init init_world]
  show ?thesis
    unfolding run
    by (simp add: spec_mentions_iff [OF plain_keywords(1)] spec_mentions_iff [OF plain_keywords(2)]
        spec_mentions_iff [OF plain_keywords(3)] eval_strings t)
qed

section \<open>Properties of the trace\<close>

lemma grows_trans: "grows w w1 \<Longrightarrow> grows w1 w2 \<Longrightarrow> grows w w2"
  unfolding grows_def by (metis append.assoc list_all_append)

lemma grows_log: "runtime_event ev \<Longrightarrow> grows w (log ev w)"
  by (simp add: grows_def log_def)

lemma grows_call: "runtime_event ev \<Longrightarrow> grows w (snd (call env ev w))"
  by (simp add: grows_def trace_call)

lemma grows_signal_alarm: "grows w (signal_alarm n w)"
  by (simp add: grows_def trace_signal_alarm)

lemma grows_run_with_timeout:
  assumes "\<And>v. grows v (snd (func v))"
  shows "grows w (snd (run_with_timeout func n w))"
  unfolding snd_run_with_timeout
  by (blast intro: grows_trans grows_signal_alarm assms)

lemma grows_start_studio: "grows w (start_studio env w)"
proof -
  have g: "grows w (snd (run_with_timeout (call env Studio_start) 120 w))"
    by (rule grows_run_with_timeout) (simp add: grows_call)
  show ?thesis
    unfolding start_studio_def using g
    by (auto split: prod.splits outcome.splits intro!: grows_trans [OF _ grows_log])
qed

lemma grows_test_studio: "grows w (snd (run_with_timeout (test_studio env) 30 w))"
  by (rule grows_run_with_timeout) (simp add: test_studio_def grows_call)

lemma grows_clone_repo: "grows w (snd (clone_repo env repo_url d w))"
proof -
  have 1: "grows w (snd (call env (Studio_run (''rm -rf '' @ d)) w))"
    by (simp add: grows_call)
  have 2: "\<And>v. grows v (snd (call env (Studio_run (''git clone '' @ repo_url @ '' '' @ d)) v))"
    by (simp add: grows_call)
  show ?thesis
    unfolding clone_repo_def using 1 2
    by (auto split: prod.splits outcome.splits intro: grows_trans)
qed

lemma runtime_command_events: "list_all runtime_event (concat (map (command_events d) cs))"
  by (induction cs) (simp_all add: command_events_def)

lemma grows_run_commands: "grows w (snd (run_commands env d cmds (r, w)))"
  using run_commands_outcomes [of env d cmds r w]
  unfolding grows_def by (metis runtime_command_events)

lemma trace_cleanup_studio:
  "trace (cleanup_studio env d w) = trace w @ [Studio_run (''rm -rf '' @ d), Studio_stop]"
  by (simp add: cleanup_studio_def trace_call)

lemma grows_cleanup_studio: "grows w (cleanup_studio env d w)"
  by (simp add: grows_def trace_cleanup_studio)

lemma grows_run_in_studio: "grows w (snd (run_in_studio env repo_url cmds w))"
proof -
  define w2 where "w2 = start_studio env w"
  obtain r3 w3 where p: "run_with_timeout (test_studio env) 30 w2 = (r3, w3)"
    by (cases "run_with_timeout (test_studio env) 30 w2")
  have g3: "grows w w3"
    using grows_start_studio [of w env] grows_test_studio [of w2 env] p
    by (auto simp: w2_def intro: grows_trans)
  show ?thesis
  proof (cases r3)
    case TimeoutError
    then show ?thesis using g3 p by (simp add: run_in_studio_def w2_def)
  next
    case (Exception e)
    then show ?thesis using g3 p by (simp add: run_in_studio_def w2_def)
  next
    case (Ok v)
    define d where "d = repo_dir_of env (trace w3)"
    obtain r4 w4 where c: "run_with_timeout (clone_repo env repo_url d) 120 w3 = (r4, w4)"
      by (cases "run_with_timeout (clone_repo env repo_url d) 120 w3")
    have "grows w3 (snd (run_with_timeout (clone_repo env repo_url d) 120 w3))"
      by (rule grows_run_with_timeout) (rule grows_clone_repo)
    with c g3 have g4: "grows w w4" by (auto intro: grows_trans)
    show ?thesis
    proof (cases r4)
      case TimeoutError
      then show ?thesis using g4 p c Ok by (simp add: run_in_studio_def w2_def d_def)
    next
      case (Exception e)
      then show ?thesis using g4 p c Ok by (simp add: run_in_studio_def w2_def d_def)
    next
      case ok4: (Ok out)
      define r0 where "r0 = results_init\<lparr>outputs := outputs results_init @ [clone_result repo_url out]\<rparr>"
      obtain r5 w5 where rc: "run_commands env d cmds (r0, w4) = (r5, w5)"
        by (cases "run_commands env d cmds (r0, w4)")
      have "grows w4 w5" using grows_run_commands [of w4 env d cmds r0] rc by simp
      then have "grows w (cleanup_studio env d w5)"
        using g4 grows_cleanup_studio [of w5 env d] by (blast intro: grows_trans)
      then show ?thesis
        using p c Ok ok4 rc by (simp add: run_in_studio_def w2_def d_def r0_def)
    qed
  qed
qed


lemma runtime_not_cli: "runtime_event ev \<Longrightarrow> \<not> cli_event ev"
  by (cases ev) simp_all


lemma grows_cli:
  assumes "grows w w'"
  shows "list_ex cli_event (trace w') = list_ex cli_event (trace w)"
proof -
  from assms obtain evs where e: "trace w' = trace w @ evs" "list_all runtime_event evs"
    unfolding grows_def by blast
  have "\<not> list_ex cli_event evs"
    using e(2) by (induction evs) (auto dest: runtime_not_cli)
  then show ?thesis by (simp add: e(1))
qed

section \<open>Properties of the acquisition\<close>





lemma acquire_no_cli:
  "list_ex cli_event (trace (snd (acquire_studio env n t u w))) = list_ex cli_event (trace w)"
  by (auto simp: acquire_studio_def split: prod.splits outcome.splits dest!: call_eq_trace)

lemma execute_in_cloud_primary:
  "truthy (environ env ''LIGHTNING_API_KEY'') \<Longrightarrow>
   py_or (environ env ''LIGHTNING_USERNAME'') (environ env ''LIGHTNING_USER_ID'') = Some u \<Longrightarrow>
   u \<noteq> [] \<Longrightarrow>
     execute_in_cloud env repo_url project_name commands
       = primary_path env repo_url project_name commands (teamspace_of env) u init_world"
  by (simp add: execute_in_cloud_def Let_def)

lemma primary_path_no_cli:
  "list_ex cli_event (trace (snd (primary_path env repo_url project_name commands t u w)))
     = list_ex cli_event (trace w)"
proof -
  obtain c le w1 where a: "acquire_studio env (studio_name_of project_name repo_url) t u w = ((c, le), w1)"
    by (metis surj_pair)
  have 1: "list_ex cli_event (trace w1) = list_ex cli_event (trace w)"
    using acquire_no_cli [of env "studio_name_of project_name repo_url" t u w] a by simp
  show ?thesis
    using 1 grows_cli [OF grows_run_in_studio [of w1 env repo_url commands]]
    by (simp add: primary_path_def a)
qed

lemma execute_in_cloud_no_cli:
  "\<not> list_ex cli_event (trace (snd (execute_in_cloud env repo_url project_name commands)))"
  by (simp add: execute_in_cloud_def Let_def primary_path_no_cli init_world_def
      split: option.splits)

lemma primary_path_acquired:
  "fst (fst (acquire_studio env (studio_name_of project_name repo_url) t u w)) \<Longrightarrow>
     primary_path env repo_url project_name commands t u w
       = run_in_studio env repo_url commands
           (snd (acquire_studio env (studio_name_of project_name repo_url) t u w))"
  by (cases "acquire_studio env (studio_name_of project_name repo_url) t u w")
    (auto simp: primary_path_def)



section \<open>Properties of the probe\<close>

text \<open>
  C7, as amended. With the API key and a user set and a studio acquired: when the probe
  does not return, be it by a timeout or by any other exception, the run returns a
  report with success false, no output and the error of the probe
  (\<^verbatim>\<open>Studio is not responsive (timeout)\<close> with its hint, or \<^verbatim>\<open>Studio not responsive:\<close>
  and the reason), and no call of the run belongs to the command line path.
\<close>

theorem probe_failure_is_terminal:
  assumes "truthy (environ env ''LIGHTNING_API_KEY'')"
    and "py_or (environ env ''LIGHTNING_USERNAME'') (environ env ''LIGHTNING_USER_ID'') = Some u"
    and "u \<noteq> []"
    and "fst (fst (acquire_studio env (studio_name_of project_name repo_url) (teamspace_of env) u
           init_world))"
    and "w1 = snd (acquire_studio env (studio_name_of project_name repo_url) (teamspace_of env) u
           init_world)"
    and "r = fst (run_with_timeout (test_studio env) 30 (start_studio env w1))"
    and "\<not> is_ok r"
  shows "fst (execute_in_cloud env repo_url project_name commands)
           = \<lparr>success = False, outputs = [],
              errors = (case r of
                          TimeoutError \<Rightarrow> [''Studio is not responsive (timeout)'',
                                           ''Try again or check Lightning AI dashboard'']
                        | Exception e \<Rightarrow> [''Studio not responsive: '' @ e]
                        | Ok v \<Rightarrow> [])\<rparr>
         \<and> \<not> list_ex cli_event (trace (snd (execute_in_cloud env repo_url project_name commands)))"
proof -
  have e: "execute_in_cloud env repo_url project_name commands
             = run_in_studio env repo_url commands w1"
    using assms(1-5) by (simp add: execute_in_cloud_primary primary_path_acquired)
  obtain w3 where p: "run_with_timeout (test_studio env) 30 (start_studio env w1) = (r, w3)"
    using assms(6) by (metis prod.collapse)
  have "run_in_studio env repo_url commands w1
          = (\<lparr>success = False, outputs = [],
              errors = (case r of
                          TimeoutError \<Rightarrow> [''Studio is not responsive (timeout)'',
                                           ''Try again or check Lightning AI dashboard'']
                        | Exception e \<Rightarrow> [''Studio not responsive: '' @ e]
                        | Ok v \<Rightarrow> [])\<rparr>, w3)"
    using assms(7) by (cases r) (simp_all add: run_in_studio_def p)
  then show ?thesis
    using execute_in_cloud_no_cli [of env repo_url project_name commands] by (simp add: e p)
qed

theorem probe_failure_is_terminal_witness:
  "fst (execute_in_cloud (scenario probe_hangs small_output) ''https://github.com/u/r'' ''p''
          [''pytest''])
     = \<lparr>success = False, outputs = [],
        errors = [''Studio is not responsive (timeout)'',
                  ''Try again or check Lightning AI dashboard'']\<rparr>
   \<and> \<not> list_ex cli_event
         (trace (snd (execute_in_cloud (scenario probe_hangs small_output)
            ''https://github.com/u/r'' ''p'' [''pytest''])))"
proof -
  let ?env = "scenario probe_hangs small_output"
  let ?acq = "acquire_studio ?env (studio_name_of ''p'' ''https://github.com/u/r'')
                (teamspace_of ?env) ''alice'' init_world"
  have k: "truthy (environ ?env ''LIGHTNING_API_KEY'')"
    by (simp add: scenario_def truthy_def)
  have u: "py_or (environ ?env ''LIGHTNING_USERNAME'') (environ ?env ''LIGHTNING_USER_ID'')
             = Some ''alice''"
    by (simp add: scenario_def truthy_def py_or_def)
  have a: "fst (fst ?acq)"
    by (simp add: eval_cloud eval_run eval_strings)
  have r: "fst (run_with_timeout (test_studio ?env) 30 (start_studio ?env (snd ?acq)))
             = TimeoutError"
    by (simp add: eval_cloud eval_run eval_strings)
  have n: "\<not> is_ok (fst (run_with_timeout (test_studio ?env) 30 (start_studio ?env (snd ?acq))))"
    by (simp add: r)
  from probe_failure_is_terminal [OF k u _ a refl refl n, of "[''pytest'']"]
  show ?thesis by (simp add: r)
qed

text \<open>
  C7 as stated fails for an exception of the probe that is not a timeout: the report
  is returned as it is, and the command line tool is never called.
\<close>

theorem probe_exception_returned_directly:
  "fst (execute_in_cloud (scenario probe_fails small_output) ''https://github.com/u/r'' ''p''
          [''pytest''])
     = \<lparr>success = False, outputs = [],
        errors = [''Studio not responsive: connection reset'']\<rparr>
   \<and> \<not> list_ex cli_event
         (trace (snd (execute_in_cloud (scenario probe_fails small_output)
            ''https://github.com/u/r'' ''p'' [''pytest''])))"
  by (simp add: eval_cloud eval_run eval_strings)

section \<open>A failing test after a successful installation\<close>

lemma is_ok_obtain: "is_ok r \<Longrightarrow> \<exists>v. r = Ok v"
  by (cases r) simp_all

text \<open>
  C1, as amended. For the commands \<^verbatim>\<open>pip install x\<close> and \<^verbatim>\<open>pytest\<close>, with the API key
  and a user set, a studio acquired, the probe, the clone and the installation
  returning and \<^verbatim>\<open>pytest\<close> raising an exception that is not a timeout: the report has
  the result of the clone and one result for each of the two commands, the last one
  unsuccessful with exit code 1; its success flag is true, since a failing command that
  is no installation never clears it; its only error is the failure of \<^verbatim>\<open>pytest\<close>; and
  the run ends with the removal of the repository directory and the stop of the studio.
\<close>

theorem failing_test_keeps_success:
  assumes "truthy (environ env ''LIGHTNING_API_KEY'')"
    and "py_or (environ env ''LIGHTNING_USERNAME'') (environ env ''LIGHTNING_USER_ID'') = Some u"
    and "u \<noteq> []"
    and acquired:
      "fst (fst (acquire_studio env (studio_name_of project_name repo_url) (teamspace_of env) u
         init_world))"
    and probe: "\<forall>w. is_ok (fst (run_with_timeout (test_studio env) 30 w))"
    and clone:
      "\<forall>w h. is_ok (fst (run_with_timeout (clone_repo env repo_url (repo_dir_of env h)) 120 w))"
    and install:
      "\<forall>w h. is_ok (fst (run_with_timeout
                 (run_cmd env (repo_dir_of env h) ''pip install x'') 630 w))"
    and test:
      "\<forall>w h. fst (run_with_timeout (run_cmd env (repo_dir_of env h) ''pytest'') 330 w)
               = Exception e"
    and "rep = fst (execute_in_cloud env repo_url project_name [''pip install x'', ''pytest''])"
    and "tr = trace (snd (execute_in_cloud env repo_url project_name
                 [''pip install x'', ''pytest'']))"
  shows "success rep
     \<and> map command (outputs rep) = [''git clone '' @ repo_url, ''pip install x'', ''pytest'']
     \<and> map exitCode (outputs rep) = [0, 0, 1]
     \<and> map o_success (outputs rep) = [True, True, False]
     \<and> errors rep = [''Command '' @ quoted ''pytest'' @ '' failed: '' @ take_chars 500 e]
     \<and> ends_with_cleanup tr"
proof -
  define w1 where
    "w1 = snd (acquire_studio env (studio_name_of project_name repo_url) (teamspace_of env) u
       init_world)"
  have e: "execute_in_cloud env repo_url project_name [''pip install x'', ''pytest'']
             = run_in_studio env repo_url [''pip install x'', ''pytest''] w1"
    using assms(1-4) by (simp add: execute_in_cloud_primary primary_path_acquired w1_def)
  obtain v w3 where p: "run_with_timeout (test_studio env) 30 (start_studio env w1) = (Ok v, w3)"
    using probe is_ok_obtain by (metis prod.collapse)
  define d where "d = repo_dir_of env (trace w3)"
  obtain out w4 where c: "run_with_timeout (clone_repo env repo_url d) 120 w3 = (Ok out, w4)"
    using clone is_ok_obtain unfolding d_def by (metis prod.collapse)
  obtain o1 w5 where i: "run_with_timeout (run_cmd env d ''pip install x'') 630 w4 = (Ok o1, w5)"
    using install is_ok_obtain unfolding d_def by (metis prod.collapse)
  obtain w6 where t: "run_with_timeout (run_cmd env d ''pytest'') 330 w5 = (Exception e, w6)"
    using test unfolding d_def by (metis prod.collapse)
  define r0 where
    "r0 = results_init\<lparr>outputs := outputs results_init @ [clone_result repo_url out]\<rparr>"
  have rc: "run_commands env d [''pip install x'', ''pytest''] (r0, w4)
              = (r0\<lparr>outputs := outputs r0 @ [cmd_ok ''pip install x'' o1, cmd_failed ''pytest'' e],
                    errors := errors r0
                      @ [''Command '' @ quoted ''pytest'' @ '' failed: '' @ take_chars 500 e]\<rparr>, w6)"
    by (simp add: t_pip t_pytest i_pytest i t)
  have "run_in_studio env repo_url [''pip install x'', ''pytest''] w1
          = (promote (r0\<lparr>outputs := outputs r0
                           @ [cmd_ok ''pip install x'' o1, cmd_failed ''pytest'' e],
                         errors := errors r0
                           @ [''Command '' @ quoted ''pytest'' @ '' failed: '' @ take_chars 500 e]\<rparr>),
             cleanup_studio env d w6)"
    using p c rc by (simp add: run_in_studio_def d_def r0_def)
  then show ?thesis
    unfolding assms(9,10) e
    by (simp add: promote_def r0_def results_init_def clone_result_def cmd_ok_def cmd_failed_def
        trace_cleanup_studio ends_with_cleanup_def)
qed

theorem failing_test_keeps_success_witness:
  "success (fst (execute_in_cloud (scenario test_fails small_output)
      ''https://github.com/u/r'' ''p'' [''pip install x'', ''pytest'']))
   \<and> map exitCode (outputs (fst (execute_in_cloud (scenario test_fails small_output)
        ''https://github.com/u/r'' ''p'' [''pip install x'', ''pytest'']))) = [0, 0, 1]
   \<and> errors (fst (execute_in_cloud (scenario test_fails small_output)
        ''https://github.com/u/r'' ''p'' [''pip install x'', ''pytest'']))
       = [''Command '' @ [CHR 0x27] @ ''pytest'' @ [CHR 0x27] @ '' failed: 1 failed'']
   \<and> ends_with_cleanup (trace (snd (execute_in_cloud (scenario test_fails small_output)
        ''https://github.com/u/r'' ''p'' [''pip install x'', ''pytest''])))"
proof -
  let ?env = "scenario test_fails small_output"
  have a: "fst (fst (acquire_studio ?env (studio_name_of ''p'' ''https://github.com/u/r'')
             (teamspace_of ?env) ''alice'' init_world))"
    by (simp add: eval_cloud eval_run eval_strings)
  have p: "\<forall>w. is_ok (fst (run_with_timeout (test_studio ?env) 30 w))"
    by (simp add: eval_cloud eval_run eval_strings)
  have c: "\<forall>w h. is_ok (fst (run_with_timeout
             (clone_repo ?env ''https://github.com/u/r'' (repo_dir_of ?env h)) 120 w))"
    by (simp add: eval_cloud eval_run eval_strings)
  have i: "\<forall>w h. is_ok (fst (run_with_timeout
             (run_cmd ?env (repo_dir_of ?env h) ''pip install x'') 630 w))"
    by (simp add: eval_cloud eval_run eval_strings)
  have t: "\<forall>w h. fst (run_with_timeout (run_cmd ?env (repo_dir_of ?env h) ''pytest'') 330 w)
             = Exception ''1 failed''"
    by (simp add: eval_cloud eval_run eval_strings)
  from failing_test_keeps_success [OF scenario_key scenario_user _ a p c i t refl refl]
  show ?thesis by (simp add: quoted_def)
qed

text \<open>
  C1 as stated fails on the success flag: in this run the installation succeeds, the
  test fails, and the report says success.
\<close>

theorem failing_test_reports_success:
  "success (fst (execute_in_cloud (scenario test_fails small_output)
      ''https://github.com/u/r'' ''p'' [''pip install x'', ''pytest'']))
   \<and> map o_success (outputs (fst (execute_in_cloud (scenario test_fails small_output)
        ''https://github.com/u/r'' ''p'' [''pip install x'', ''pytest''])))
       = [True, True, False]"
  by (simp add: run_test_fails)

section \<open>Properties of the partial success rule\<close>

lemma promote_idem: "promote (promote results) = promote results"
  by (simp add: promote_def)

lemma promote_cases:
  "promote results =
     (if \<not> success results \<and> install_succeeded (outputs results)
      then results\<lparr>success := True,
             errors := errors results
               @ [''Note: Some commands failed but installation succeeded'']\<rparr>
      else results)"
  by (cases "outputs results") (simp_all add: promote_def install_succeeded_def)

text \<open>
  C3. The rule looks for \<^verbatim>\<open>install\<close> only, not for \<^verbatim>\<open>download\<close>: in this run
  \<^verbatim>\<open>python download_data.py\<close>, a command of the installation or download kind, succeeds,
  \<^verbatim>\<open>pip install x\<close> then fails and clears the success flag, and the report keeps success
  false, with no note.
\<close>

theorem download_success_not_promoted:
  "install_or_download ''python download_data.py''
   \<and> map command (outputs (fst (execute_in_cloud (scenario install_fails small_output)
        ''https://github.com/u/r'' ''p'' [''python download_data.py'', ''pip install x''])))
       = [''git clone https://github.com/u/r'', ''python download_data.py'', ''pip install x'']
   \<and> map o_success (outputs (fst (execute_in_cloud (scenario install_fails small_output)
        ''https://github.com/u/r'' ''p'' [''python download_data.py'', ''pip install x''])))
       = [True, True, False]
   \<and> \<not> success (fst (execute_in_cloud (scenario install_fails small_output)
        ''https://github.com/u/r'' ''p'' [''python download_data.py'', ''pip install x'']))
   \<and> errors (fst (execute_in_cloud (scenario install_fails small_output)
        ''https://github.com/u/r'' ''p'' [''python download_data.py'', ''pip install x'']))
       = [''Command '' @ [CHR 0x27] @ ''pip install x'' @ [CHR 0x27]
            @ '' failed: no such package'']"
  by (simp add: run_download_then_install_fails eval_defs)

section \<open>Properties of the captured output\<close>

lemma len_Nil: "len [] = 0"
  by (simp add: len_def)

lemma len_take_chars_le: "n \<le> m \<Longrightarrow> len (take_chars n s) \<le> m"
  using len_take_chars [of n s] by simp

lemma len_timed_out_msg: "len (timed_out_msg cmd) \<le> 2000"
proof -
  have "length (timed_out_msg cmd) = 28"
    by (simp add: timed_out_msg_def timeout_seconds_of_def str_nat.simps)
  then show ?thesis
    using len_le_length [of "timed_out_msg cmd"] by simp
qed

lemma bounded_run_commands:
  "list_all bounded_result (outputs r) \<Longrightarrow>
     list_all bounded_result (outputs (fst (run_commands env d cmds (r, w))))"
proof (induction cmds arbitrary: r w)
  case Nil
  then show ?case by simp
next
  case (Cons cmd cmds)
  have b: "bounded_result (cmd_ok cmd out)" "bounded_result (cmd_timed_out cmd)"
    "bounded_result (cmd_failed cmd e)" for out e
    by (simp_all add: bounded_result_def cmd_ok_def cmd_timed_out_def cmd_failed_def
        len_timed_out_msg len_take_chars len_Nil)
  show ?case
    using Cons.prems b
    by (auto simp: Let_def split: prod.splits outcome.splits intro!: Cons.IH)
qed

lemma outputs_promote: "outputs (promote r) = outputs r"
  by (simp add: promote_def)

lemma bounded_run_in_studio:
  "list_all bounded_result (outputs (fst (run_in_studio env repo_url cmds w)))"
proof -
  have "list_all bounded_result (outputs (fst (run_commands env d cmds
          (results_init\<lparr>outputs := outputs results_init @ [clone_result repo_url out]\<rparr>, v))))"
    for d out v
    by (rule bounded_run_commands)
      (simp add: results_init_def clone_result_def bounded_result_def len_take_chars_le
        len_Nil)
  then show ?thesis
    by (auto simp: run_in_studio_def Let_def results_init_def outputs_promote
      split: prod.splits outcome.splits) (metis fst_conv)+
qed

lemma bounded_execute_in_cloud:
  "list_all bounded_result (outputs (fst (execute_in_cloud env repo_url project_name cmds)))"
  by (auto simp: execute_in_cloud_def primary_path_def Let_def no_user_def creation_failed_def
      bounded_run_in_studio split: option.splits prod.splits)

text \<open>
  C9. On the command line path nothing is cut: a run of the tool that prints 6000
  characters gives a result whose stdout has 6000 characters, more than any cap of the
  SDK path (where \<open>bounded_execute_in_cloud\<close> holds).
\<close>

theorem cli_output_not_truncated:
  "length (stdout (hd (outputs (fst (execute_via_cli (scenario test_fails big_output)
      ''https://github.com/u/r'' ''p'' [''make''] init_world))))) = 6000
   \<and> \<not> bounded_result (hd (outputs (fst (execute_via_cli (scenario test_fails big_output)
      ''https://github.com/u/r'' ''p'' [''make''] init_world))))"
  by (simp add: execute_via_cli_def subprocess_run_def scenario_def big_output_def log_def
      init_world_def Let_def bounded_result_def len_replicate_ascii)

section \<open>Properties of the fallback\<close>

lemma cli_success_shape:
  assumes "success (fst (execute_via_cli env repo_url project_name commands w))"
  shows "\<exists>out err. fst (execute_via_cli env repo_url project_name commands w)
           = \<lparr>success = True,
              outputs = [\<lparr>command = ''all_commands'', stdout = out, stderr = err,
                          exitCode = 0, o_success = True\<rparr>],
              errors = []\<rparr>"
  using assms
  by (auto simp: execute_via_cli_def cli_empty_def Let_def
      split: prod.splits proc_outcome.splits completed_process.splits option.splits if_splits)

text \<open>
  C10. When the last handler of \<^verbatim>\<open>execute_in_cloud\<close> is entered, the fallback is
  enabled and the command line run succeeds, the report returned is the one of the
  command line run: success, one result named \<^verbatim>\<open>all_commands\<close> with exit code 0, no
  error; and it is the same whatever results and errors the SDK path had recorded and
  whatever it raised.
\<close>

theorem fallback_report_replaces_primary:
  assumes "lower (case environ env ''LIGHTNING_USE_CLI_FALLBACK'' of
                    None \<Rightarrow> ''true'' | Some v \<Rightarrow> v) = ''true''"
    and "w1 = (if studio then snd (call env Studio_stop w) else w)"
    and "success (fst (execute_via_cli env repo_url project_name commands w1))"
    and "rep = fst (sdk_failed env repo_url project_name commands results studio error_msg w)"
  shows "rep = fst (execute_via_cli env repo_url project_name commands w1)
     \<and> success rep
     \<and> map command (outputs rep) = [''all_commands'']
     \<and> map exitCode (outputs rep) = [0]
     \<and> errors rep = []
     \<and> sdk_failed env repo_url project_name commands results' studio error_msg' w
         = sdk_failed env repo_url project_name commands results studio error_msg w"
proof -
  obtain c w2 where e: "execute_via_cli env repo_url project_name commands w1 = (c, w2)"
    by (cases "execute_via_cli env repo_url project_name commands w1")
  with assms(3) have sc: "success c" by simp
  have 1: "sdk_failed env repo_url project_name commands rs studio msg w
             = execute_via_cli env repo_url project_name commands w1" for rs msg
    by (simp add: sdk_failed_def Let_def assms(1) assms(2) [symmetric] e sc)
  from cli_success_shape [OF assms(3)] obtain out err where
    2: "fst (execute_via_cli env repo_url project_name commands w1)
           = \<lparr>success = True,
              outputs = [\<lparr>command = ''all_commands'', stdout = out, stderr = err,
                          exitCode = 0, o_success = True\<rparr>],
              errors = []\<rparr>"
    by blast
  show ?thesis
    unfolding assms(4) 1 by (simp add: 2)
qed

theorem fallback_report_replaces_primary_witness:
  "fst (sdk_failed (scenario test_fails small_output) ''https://github.com/u/r'' ''p''
     [''pip install x'', ''pytest'']
     \<lparr>success = True, outputs = [clone_result ''https://github.com/u/r'' ''ok''],
        errors = [''earlier'']\<rparr> True ''boom'' init_world)
   = \<lparr>success = True,
      outputs = [\<lparr>command = ''all_commands'', stdout = ''done'', stderr = [],
                  exitCode = 0, o_success = True\<rparr>],
      errors = []\<rparr>"
proof -
  let ?env = "scenario test_fails small_output"
  let ?w1 = "if True then snd (call ?env Studio_stop init_world) else init_world"
  have f: "lower (case environ ?env ''LIGHTNING_USE_CLI_FALLBACK'' of
                    None \<Rightarrow> ''true'' | Some v \<Rightarrow> v) = ''true''"
    by (simp add: scenario_def eval_strings)
  have c: "fst (execute_via_cli ?env ''https://github.com/u/r'' ''p''
             [''pip install x'', ''pytest''] ?w1)
           = \<lparr>success = True,
              outputs = [\<lparr>command = ''all_commands'', stdout = ''done'', stderr = [],
                          exitCode = 0, o_success = True\<rparr>],
              errors = []\<rparr>"
    by (simp add: execute_via_cli_def subprocess_run_def cli_empty_def eval_run Let_def
        small_output_def)
  have s: "success (fst (execute_via_cli ?env ''https://github.com/u/r'' ''p''
             [''pip install x'', ''pytest''] ?w1))"
    by (simp only: c) simp
  from fallback_report_replaces_primary [OF f refl s refl]
  show ?thesis by (simp only: c)
qed

end
